theory Spec2Isabelle
  imports Main
begin

section \<open>SlotSwapper: the swap-negotiation core\<close>

text \<open>
  A shallow embedding of the backend of the SlotSwapper application: the Mongoose models
  \<^verbatim>\<open>Event\<close> and \<^verbatim>\<open>SwapRequest\<close> and the Express routes of
  \<^verbatim>\<open>routes/events.js\<close> and \<^verbatim>\<open>routes/swaps.js\<close>.

  \<^item> A collection is an association list from \<^verbatim>\<open>_id\<close> to document; the
    database is a record of the two collections and every handler returns the database it
    leaves behind, together with its HTTP response.
  \<^item> A thrown error is the \<open>Inl\<close> of a sum; the routes' \<^verbatim>\<open>catch\<close> blocks turn it
    into a 500 response.
  \<^item> A handler reads the clock several times; the model hands it one instant \<open>now\<close>
    (milliseconds since the epoch).
  \<^item> The authenticated caller (\<^verbatim>\<open>req.user._id\<close>) is a parameter of each
    route; token checking is not modelled.
  \<^item> Fields that the library maintains by itself (\<^verbatim>\<open>updatedAt\<close>,
    \<^verbatim>\<open>__v\<close>) and \<^verbatim>\<open>populate\<close>, which only decorates a response, are left out.
\<close>

subsection \<open>Documents\<close>

type_synonym oid = nat
type_synonym time = int

datatype slot_status = BUSY | SWAPPABLE | SWAP_PENDING

datatype request_status = PENDING | ACCEPTED | REJECTED | CANCELLED

record swap_history_entry =
  swappedWith :: oid
  swappedAt :: time
  swapRequestId :: oid

record event =
  title :: string
  description :: string
  startTime :: time
  endTime :: time
  status :: slot_status
  userId :: oid
  originalUserId :: "oid option"
  category :: string
  location :: string
  isRecurring :: bool
  swapHistory :: "swap_history_entry list"

text \<open>
  The request's \<^verbatim>\<open>status\<close> field is called \<open>rstatus\<close> here, since a record field
  name is global and \<open>status\<close> is the event's.
\<close>

record swap_request =
  mySlotId :: oid
  theirSlotId :: oid
  requestedBy :: oid
  requestedTo :: oid
  rstatus :: request_status
  message :: string
  responseMessage :: string
  respondedAt :: "time option"
  expiresAt :: time
  createdAt :: time

record db =
  events :: "(oid \<times> event) list"
  requests :: "(oid \<times> swap_request) list"

datatype payload =
    NoData
  | RequestData swap_request
  | EventData event
  | RequestList "(oid \<times> swap_request) list"

record response =
  http_status :: nat
  res_message :: string
  res_data :: payload

definition reply :: "nat \<Rightarrow> string \<Rightarrow> response" where
  "reply c m = \<lparr>http_status = c, res_message = m, res_data = NoData\<rparr>"

subsection \<open>What the model is parametric in\<close>

text \<open>
  Mongoose is not part of the repository. Two facts about it decide what the code does,
  and they are parameters of the model:
  \<^item> \<open>post_save_sees_isNew\<close>: whether a \<^verbatim>\<open>post('save')\<close> hook that runs after the
    insert of a new document still reads \<^verbatim>\<open>doc.isNew\<close> as true;
  \<^item> \<open>save_validates_unmodified\<close>: whether \<^verbatim>\<open>doc.save()\<close> on a loaded document runs
    the schema validators of the paths the handler did not modify.

  Mongoose sets \<^verbatim>\<open>isNew\<close> to false before the \<^verbatim>\<open>post('save')\<close> hooks run, and by
  default \<^verbatim>\<open>save()\<close> validates every path of a loaded document (the option
  \<^verbatim>\<open>validateModifiedOnly\<close> restricts it to the modified ones): that behaviour is the
  constant \<open>mongoose\<close>. Theorems that do not depend on either fact are stated for every
  \<open>odm\<close>.
\<close>

record odm =
  post_save_sees_isNew :: bool
  save_validates_unmodified :: bool

definition mongoose :: odm where
  "mongoose = \<lparr>post_save_sees_isNew = False, save_validates_unmodified = True\<rparr>"

text \<open>
  A write to the store can fail. A handler makes at most two writes to the events
  collection and one to the requests collection; \<open>faults\<close> says which of them fail.
\<close>

record faults =
  event_write1_fails :: bool
  event_write2_fails :: bool
  request_write_fails :: bool

definition no_faults :: faults where
  "no_faults = \<lparr>event_write1_fails = False, event_write2_fails = False,
                 request_write_fails = False\<rparr>"

subsection \<open>The store\<close>

definition findById :: "(oid \<times> 'a) list \<Rightarrow> oid \<Rightarrow> 'a option" where
  "findById c i = map_of c i"

definition update_doc :: "oid \<Rightarrow> ('a \<Rightarrow> 'a) \<Rightarrow> (oid \<times> 'a) list \<Rightarrow> (oid \<times> 'a) list" where
  "update_doc i f c = map (\<lambda>(k, v). if k = i then (k, f v) else (k, v)) c"

definition delete_doc :: "oid \<Rightarrow> (oid \<times> 'a) list \<Rightarrow> (oid \<times> 'a) list" where
  "delete_doc i c = filter (\<lambda>(k, v). k \<noteq> i) c"

text \<open>
  \<^verbatim>\<open>Promise.all([Event.findByIdAndUpdate(a, {status}), Event.findByIdAndUpdate(b, {status})])\<close>:
  both updates are started; one that fails does not stop the other, and the pair fails
  when either does. An update of an id that is not in the collection changes nothing and
  is no error.
\<close>

definition set_status :: "slot_status \<Rightarrow> event \<Rightarrow> event" where
  "set_status s e = e\<lparr>status := s\<rparr>"

definition update_both_statuses ::
  "faults \<Rightarrow> slot_status \<Rightarrow> oid \<Rightarrow> oid \<Rightarrow> (oid \<times> event) list \<Rightarrow> bool \<times> (oid \<times> event) list" where
  "update_both_statuses flt s a b ev =
     (let ev1 = (if event_write1_fails flt then ev else update_doc a (set_status s) ev);
          ev2 = (if event_write2_fails flt then ev1 else update_doc b (set_status s) ev1)
      in (\<not> event_write1_fails flt \<and> \<not> event_write2_fails flt, ev2))"

subsection \<open>Strings\<close>

text \<open>\<^verbatim>\<open>trim\<close> on the ASCII white space; a \<open>char\<close> is a byte.\<close>

definition is_space :: "char \<Rightarrow> bool" where
  "is_space c = (c \<in> set [CHR '' '', CHR 0x09, CHR 0x0A, CHR 0x0B, CHR 0x0C, CHR 0x0D])"

definition trim :: "string \<Rightarrow> string" where
  "trim s = rev (dropWhile is_space (rev (dropWhile is_space s)))"

text \<open>\<^verbatim>\<open>body('message').optional().trim().isLength({ max: 300 })\<close>; an absent message is \<open>''''\<close>.\<close>

definition valid_message :: "string \<Rightarrow> bool" where
  "valid_message m = (length (trim m) \<le> 300)"

subsection \<open>The SwapRequest model\<close>

definition seven_days :: time where
  "seven_days = 7 * 24 * 60 * 60 * 1000"

definition isExpired :: "time \<Rightarrow> swap_request \<Rightarrow> bool" where
  "isExpired now r = (expiresAt r < now)"

definition isPending :: "time \<Rightarrow> swap_request \<Rightarrow> bool" where
  "isPending now r = (rstatus r = PENDING \<and> \<not> isExpired now r)"

text \<open>\<^verbatim>\<open>swapRequestSchema.pre('save')\<close>: the error it passes to \<^verbatim>\<open>next\<close>, if any.\<close>

definition pre_save :: "time \<Rightarrow> bool \<Rightarrow> swap_request \<Rightarrow> (oid \<times> event) list \<Rightarrow> string option" where
  "pre_save now isNew r ev =
     (if isNew then
        (case (findById ev (mySlotId r), findById ev (theirSlotId r)) of
           (Some mySlot, Some theirSlot) \<Rightarrow>
             if userId mySlot \<noteq> requestedBy r then Some ''You can only swap your own slots''
             else if userId theirSlot \<noteq> requestedTo r then Some ''Invalid target slot owner''
             else if status mySlot \<noteq> SWAPPABLE then Some ''Your slot must be swappable''
             else if status theirSlot \<noteq> SWAPPABLE then Some ''Target slot must be swappable''
             else if startTime mySlot \<le> now \<or> startTime theirSlot \<le> now
               then Some ''Cannot swap past events''
             else None
         | _ \<Rightarrow> Some ''One or both slots do not exist'')
      else None)"

text \<open>
  \<^verbatim>\<open>swapRequestSchema.post('save')\<close>. \<open>isNew\<close> is the flag as the hook reads it. The
  hook catches and logs a failed update, so it returns the events collection only.
\<close>

definition post_save :: "faults \<Rightarrow> bool \<Rightarrow> swap_request \<Rightarrow> (oid \<times> event) list \<Rightarrow> (oid \<times> event) list" where
  "post_save flt isNew doc ev =
     (if isNew \<and> rstatus doc = PENDING
      then snd (update_both_statuses flt SWAP_PENDING (mySlotId doc) (theirSlotId doc) ev)
      else ev)"

text \<open>
  The unique partial index \<^verbatim>\<open>{ mySlotId: 1, theirSlotId: 1, status: 1 }\<close> with
  \<^verbatim>\<open>partialFilterExpression: { status: 'PENDING' }\<close>, and the insert that it (and the
  unique index on \<^verbatim>\<open>_id\<close>) guards.
\<close>

definition violates_pending_index :: "(oid \<times> swap_request) list \<Rightarrow> swap_request \<Rightarrow> bool" where
  "violates_pending_index reqs r =
     (rstatus r = PENDING \<and>
      list_ex (\<lambda>(k, r'). rstatus r' = PENDING \<and> mySlotId r' = mySlotId r
                          \<and> theirSlotId r' = theirSlotId r) reqs)"

definition insert_request ::
  "oid \<Rightarrow> swap_request \<Rightarrow> (oid \<times> swap_request) list \<Rightarrow> string + (oid \<times> swap_request) list" where
  "insert_request newId r reqs =
     (if findById reqs newId \<noteq> None \<or> violates_pending_index reqs r
      then Inl ''E11000 duplicate key error''
      else Inr (reqs @ [(newId, r)]))"

text \<open>
  \<^verbatim>\<open>swapRequest.save()\<close> of a new document: schema validation
  (\<^verbatim>\<open>maxlength\<close> of the message), the pre-save hook, the insert, the post-save hook.
\<close>

definition save_new_request :: "odm \<Rightarrow> faults \<Rightarrow> time \<Rightarrow> oid \<Rightarrow> swap_request \<Rightarrow> db \<Rightarrow> string + db" where
  "save_new_request od flt now newId r d =
     (if 300 < length (message r) then Inl ''SwapRequest validation failed''
      else case pre_save now True r (events d) of
        Some e \<Rightarrow> Inl e
      | None \<Rightarrow>
          if request_write_fails flt then Inl ''write failed''
          else (case insert_request newId r (requests d) of
            Inl e \<Rightarrow> Inl e
          | Inr reqs' \<Rightarrow>
              Inr (d\<lparr>events := post_save flt (post_save_sees_isNew od) r (events d),
                     requests := reqs'\<rparr>)))"

subsection \<open>POST /api/swap/request\<close>

definition pending_between :: "oid \<Rightarrow> oid \<Rightarrow> swap_request \<Rightarrow> bool" where
  "pending_between a b r =
     (rstatus r = PENDING \<and>
      (mySlotId r = a \<and> theirSlotId r = b \<or> mySlotId r = b \<and> theirSlotId r = a))"

definition existingRequest :: "(oid \<times> swap_request) list \<Rightarrow> oid \<Rightarrow> oid \<Rightarrow> bool" where
  "existingRequest reqs a b = list_ex (\<lambda>(k, r). pending_between a b r) reqs"

definition new_request :: "time \<Rightarrow> oid \<Rightarrow> oid \<Rightarrow> oid \<Rightarrow> oid \<Rightarrow> string \<Rightarrow> swap_request" where
  "new_request now my their rby rto m =
     \<lparr>mySlotId = my, theirSlotId = their, requestedBy = rby, requestedTo = rto,
      rstatus = PENDING, message = trim m, responseMessage = '''', respondedAt = None,
      expiresAt = now + seven_days, createdAt = now\<rparr>"

definition create_route ::
  "odm \<Rightarrow> faults \<Rightarrow> time \<Rightarrow> oid \<Rightarrow> oid \<Rightarrow> oid \<Rightarrow> oid \<Rightarrow> string \<Rightarrow> db \<Rightarrow> response \<times> db" where
  "create_route od flt now newId requester my their m d =
     (if \<not> valid_message m then (reply 400 ''Validation failed'', d)
      else if my = their then (reply 400 ''Cannot swap a slot with itself'', d)
      else case (findById (events d) my, findById (events d) their) of
        (Some mySlot, Some theirSlot) \<Rightarrow>
          if userId mySlot \<noteq> requester
            then (reply 403 ''You can only swap your own slots'', d)
          else if userId theirSlot = requester
            then (reply 400 ''Cannot swap with your own slot'', d)
          else if status mySlot \<noteq> SWAPPABLE
            then (reply 400 ''Your slot must be marked as swappable'', d)
          else if status theirSlot \<noteq> SWAPPABLE
            then (reply 400 ''Target slot is not available for swapping'', d)
          else if startTime mySlot \<le> now \<or> startTime theirSlot \<le> now
            then (reply 400 ''Cannot swap past events'', d)
          else if existingRequest (requests d) my their
            then (reply 400 ''A pending swap request already exists for these slots'', d)
          else
            (let r = new_request now my their requester (userId theirSlot) m in
             case save_new_request od flt now newId r d of
               Inl e \<Rightarrow>
                 if e = ''E11000 duplicate key error''
                 then (reply 400 ''A pending swap request already exists for these slots'', d)
                 else (reply 500 ''Failed to create swap request'', d)
             | Inr d' \<Rightarrow>
                 (\<lparr>http_status = 201, res_message = ''Swap request sent successfully'',
                   res_data = RequestData r\<rparr>, d'))
      | _ \<Rightarrow> (reply 404 ''One or both slots not found'', d))"

subsection \<open>The Event model's validators\<close>

text \<open>
  The body of \<^verbatim>\<open>PUT /api/events/:id\<close>: every field is optional, \<open>None\<close> is an
  absent field. A date is the instant it parses to; the status and the category are the
  strings of the request, checked by the route.
\<close>

record event_update =
  new_title :: "string option"
  new_description :: "string option"
  new_startTime :: "time option"
  new_endTime :: "time option"
  new_status :: "string option"
  new_category :: "string option"
  new_location :: "string option"

definition no_update :: event_update where
  "no_update = \<lparr>new_title = None, new_description = None, new_startTime = None,
                 new_endTime = None, new_status = None, new_category = None,
                 new_location = None\<rparr>"

definition categories :: "string list" where
  "categories = [''work'', ''personal'', ''meeting'', ''appointment'', ''other'']"

text \<open>
  The validators of \<^verbatim>\<open>eventSchema\<close>, as \<^verbatim>\<open>event.save()\<close> runs them on a loaded
  document of which the handler assigned the fields present in \<open>u\<close>: a path is validated
  when it was assigned, and every path is when the library validates unmodified paths too.
\<close>

definition event_validation :: "odm \<Rightarrow> time \<Rightarrow> event_update \<Rightarrow> event \<Rightarrow> bool" where
  "event_validation od now u e =
     (let every = save_validates_unmodified od in
      ((every \<or> new_title u \<noteq> None) \<longrightarrow> 1 \<le> length (title e) \<and> length (title e) \<le> 100) \<and>
      ((every \<or> new_description u \<noteq> None) \<longrightarrow> length (description e) \<le> 500) \<and>
      ((every \<or> new_startTime u \<noteq> None) \<longrightarrow> now < startTime e) \<and>
      ((every \<or> new_endTime u \<noteq> None) \<longrightarrow> startTime e < endTime e) \<and>
      ((every \<or> new_category u \<noteq> None) \<longrightarrow> category e \<in> set categories) \<and>
      ((every \<or> new_location u \<noteq> None) \<longrightarrow> length (location e) \<le> 200))"

text \<open>
  The validators of \<^verbatim>\<open>swapRequestSchema\<close> (the two \<^verbatim>\<open>maxlength\<close>) on a loaded
  request; \<open>assigned\<close> says whether the handler assigned \<^verbatim>\<open>responseMessage\<close>.
\<close>

definition request_validation :: "odm \<Rightarrow> bool \<Rightarrow> swap_request \<Rightarrow> bool" where
  "request_validation od assigned r =
     (((save_validates_unmodified od \<or> assigned) \<longrightarrow> length (responseMessage r) \<le> 300) \<and>
      (save_validates_unmodified od \<longrightarrow> length (message r) \<le> 300))"

subsection \<open>accept, reject, cancel\<close>

definition history_entry :: "oid \<Rightarrow> time \<Rightarrow> oid \<Rightarrow> swap_history_entry" where
  "history_entry u now rid = \<lparr>swappedWith = u, swappedAt = now, swapRequestId = rid\<rparr>"

definition take_over :: "oid \<Rightarrow> time \<Rightarrow> oid \<Rightarrow> event \<Rightarrow> event" where
  "take_over u now rid e =
     e\<lparr>userId := u, status := BUSY, swapHistory := swapHistory e @ [history_entry u now rid]\<rparr>"

definition resolve :: "request_status \<Rightarrow> string \<Rightarrow> time \<Rightarrow> swap_request \<Rightarrow> swap_request" where
  "resolve s m now r = r\<lparr>rstatus := s, responseMessage := trim m, respondedAt := Some now\<rparr>"

text \<open>
  \<^verbatim>\<open>swapRequestSchema.methods.accept\<close>, on the loaded request \<open>this\<close> with id
  \<open>rid\<close>. Everything inside \<^verbatim>\<open>session.withTransaction\<close> is written or nothing is:
  an error there leaves the database as it was. Each slot records its own new owner as
  \<^verbatim>\<open>swappedWith\<close>, as the source does.
\<close>

definition accept_method ::
  "odm \<Rightarrow> faults \<Rightarrow> time \<Rightarrow> oid \<Rightarrow> swap_request \<Rightarrow> string \<Rightarrow> db \<Rightarrow> (string + swap_request) \<times> db" where
  "accept_method od flt now rid this m d =
     (if rstatus this \<noteq> PENDING then (Inl ''Request is no longer pending'', d)
      else if isExpired now this then (Inl ''Request has expired'', d)
      else case (findById (events d) (mySlotId this), findById (events d) (theirSlotId this)) of
        (Some mySlot, Some theirSlot) \<Rightarrow>
          (if \<not> event_validation od now no_update mySlot
              \<or> \<not> event_validation od now no_update theirSlot
             then (Inl ''Event validation failed'', d)
           else if event_write1_fails flt \<or> event_write2_fails flt
             then (Inl ''write failed'', d)
           else if \<not> request_validation od True (resolve ACCEPTED m now this)
             then (Inl ''SwapRequest validation failed'', d)
           else if request_write_fails flt then (Inl ''write failed'', d)
           else (Inr (resolve ACCEPTED m now this),
                 d\<lparr>events :=
                      update_doc (theirSlotId this) (take_over (userId mySlot) now rid)
                        (update_doc (mySlotId this) (take_over (userId theirSlot) now rid)
                           (events d)),
                    requests := update_doc rid (resolve ACCEPTED m now) (requests d)\<rparr>))
      | _ \<Rightarrow> (Inl ''One or both slots no longer exist'', d))"

text \<open>
  \<^verbatim>\<open>reject\<close> and \<^verbatim>\<open>cancel\<close> write the two slots and then the request, with no
  transaction: what was written before an error stays written. \<open>f\<close> is the assignment
  to the request's fields; \<^verbatim>\<open>cancel\<close> assigns no response message.
\<close>

definition revert_and_resolve ::
  "odm \<Rightarrow> faults \<Rightarrow> oid \<Rightarrow> swap_request \<Rightarrow> bool \<Rightarrow> (swap_request \<Rightarrow> swap_request) \<Rightarrow> db
     \<Rightarrow> (string + swap_request) \<times> db" where
  "revert_and_resolve od flt rid this assigned f d =
     (case update_both_statuses flt SWAPPABLE (mySlotId this) (theirSlotId this) (events d) of
        (ok, ev') \<Rightarrow>
          if \<not> ok then (Inl ''write failed'', d\<lparr>events := ev'\<rparr>)
          else if \<not> request_validation od assigned (f this)
            then (Inl ''SwapRequest validation failed'', d\<lparr>events := ev'\<rparr>)
          else if request_write_fails flt then (Inl ''write failed'', d\<lparr>events := ev'\<rparr>)
          else (Inr (f this), d\<lparr>events := ev', requests := update_doc rid f (requests d)\<rparr>))"

definition reject_method ::
  "odm \<Rightarrow> faults \<Rightarrow> time \<Rightarrow> oid \<Rightarrow> swap_request \<Rightarrow> string \<Rightarrow> db \<Rightarrow> (string + swap_request) \<times> db" where
  "reject_method od flt now rid this m d =
     (if rstatus this \<noteq> PENDING then (Inl ''Request is no longer pending'', d)
      else revert_and_resolve od flt rid this True (resolve REJECTED m now) d)"

definition cancelled :: "time \<Rightarrow> swap_request \<Rightarrow> swap_request" where
  "cancelled now r = r\<lparr>rstatus := CANCELLED, respondedAt := Some now\<rparr>"

definition cancel_method ::
  "odm \<Rightarrow> faults \<Rightarrow> time \<Rightarrow> oid \<Rightarrow> swap_request \<Rightarrow> db \<Rightarrow> (string + swap_request) \<times> db" where
  "cancel_method od flt now rid this d =
     (if rstatus this \<noteq> PENDING then (Inl ''Request is no longer pending'', d)
      else revert_and_resolve od flt rid this False (cancelled now) d)"

subsection \<open>POST /api/swap/response/:requestId and POST /api/swap/cancel/:requestId\<close>

definition method_reply :: "string \<Rightarrow> (string + swap_request) \<times> db \<Rightarrow> response \<times> db" where
  "method_reply ok res =
     (case res of
        (Inl e, d') \<Rightarrow> (reply 500 e, d')
      | (Inr r, d') \<Rightarrow> (\<lparr>http_status = 200, res_message = ok, res_data = RequestData r\<rparr>, d'))"

definition respond_route ::
  "odm \<Rightarrow> faults \<Rightarrow> time \<Rightarrow> oid \<Rightarrow> oid \<Rightarrow> string \<Rightarrow> string \<Rightarrow> db \<Rightarrow> response \<times> db" where
  "respond_route od flt now caller rid action m d =
     (if action \<notin> set [''accept'', ''reject''] \<or> \<not> valid_message m
        then (reply 400 ''Validation failed'', d)
      else case findById (requests d) rid of
        None \<Rightarrow> (reply 404 ''Swap request not found'', d)
      | Some swapRequest \<Rightarrow>
          (if requestedTo swapRequest \<noteq> caller
             then (reply 403 ''You are not authorized to respond to this request'', d)
           else if rstatus swapRequest \<noteq> PENDING
             then (reply 400 ''Request has already been responded to'', d)
           else if isExpired now swapRequest
             then (reply 400 ''Request has expired'', d)
           else case (findById (events d) (mySlotId swapRequest),
                      findById (events d) (theirSlotId swapRequest)) of
             (Some mySlot, Some theirSlot) \<Rightarrow>
               (if status mySlot \<noteq> SWAP_PENDING \<or> status theirSlot \<noteq> SWAP_PENDING
                  then (reply 400 ''Slots are no longer in pending swap state'', d)
                else if action = ''accept''
                  then method_reply ''Swap request accepted successfully''
                         (accept_method od flt now rid swapRequest (trim m) d)
                else method_reply ''Swap request rejected''
                       (reject_method od flt now rid swapRequest (trim m) d))
           | _ \<Rightarrow> (reply 400 ''One or both slots no longer exist'', d)))"

definition cancel_route :: "odm \<Rightarrow> faults \<Rightarrow> time \<Rightarrow> oid \<Rightarrow> oid \<Rightarrow> db \<Rightarrow> response \<times> db" where
  "cancel_route od flt now caller rid d =
     (case findById (requests d) rid of
        None \<Rightarrow> (reply 404 ''Swap request not found'', d)
      | Some swapRequest \<Rightarrow>
          (if requestedBy swapRequest \<noteq> caller
             then (reply 403 ''You are not authorized to cancel this request'', d)
           else if rstatus swapRequest \<noteq> PENDING
             then (reply 400 ''Can only cancel pending requests'', d)
           else method_reply ''Swap request cancelled successfully''
                  (cancel_method od flt now rid swapRequest d)))"

subsection \<open>The event routes\<close>

text \<open>\<^verbatim>\<open>checkResourceOwnership('Event')\<close>: the response that stops the request, or the event.\<close>

definition checkResourceOwnership :: "oid \<Rightarrow> oid \<Rightarrow> db \<Rightarrow> response + event" where
  "checkResourceOwnership caller i d =
     (case findById (events d) i of
        None \<Rightarrow> Inl (reply 404 ''Event not found'')
      | Some resource \<Rightarrow>
          if userId resource \<noteq> caller
          then Inl (reply 403 ''Access denied - you do not own this resource'')
          else Inr resource)"

definition status_of_name :: "string \<Rightarrow> slot_status option" where
  "status_of_name s =
     (if s = ''BUSY'' then Some BUSY
      else if s = ''SWAPPABLE'' then Some SWAPPABLE
      else if s = ''SWAP_PENDING'' then Some SWAP_PENDING
      else None)"

definition opt_ok :: "('a \<Rightarrow> bool) \<Rightarrow> 'a option \<Rightarrow> bool" where
  "opt_ok P x = (case x of None \<Rightarrow> True | Some v \<Rightarrow> P v)"

definition validateEventUpdate :: "time \<Rightarrow> event_update \<Rightarrow> bool" where
  "validateEventUpdate now u =
     (opt_ok (\<lambda>t. 1 \<le> length (trim t) \<and> length (trim t) \<le> 100) (new_title u) \<and>
      opt_ok (\<lambda>t. length (trim t) \<le> 500) (new_description u) \<and>
      opt_ok (\<lambda>t. now < t) (new_startTime u) \<and>
      opt_ok (\<lambda>s. s \<in> set [''BUSY'', ''SWAPPABLE'']) (new_status u) \<and>
      opt_ok (\<lambda>c. c \<in> set categories) (new_category u) \<and>
      opt_ok (\<lambda>l. length (trim l) \<le> 200) (new_location u))"

definition checkTimeConflicts ::
  "(oid \<times> event) list \<Rightarrow> oid \<Rightarrow> time \<Rightarrow> time \<Rightarrow> oid option \<Rightarrow> (oid \<times> event) list" where
  "checkTimeConflicts ev owner start finish excludeEventId =
     filter (\<lambda>(k, e). userId e = owner \<and> startTime e < finish \<and> start < endTime e
                      \<and> opt_ok (\<lambda>x. k \<noteq> x) excludeEventId) ev"

text \<open>
  \<^verbatim>\<open>Object.keys(updateData).forEach(key => event[key] = updateData[key])\<close> on the
  fields of the body; the strings were trimmed by the route's sanitizers.
\<close>

definition apply_update :: "event_update \<Rightarrow> event \<Rightarrow> event" where
  "apply_update u e =
     e\<lparr>title := (case new_title u of None \<Rightarrow> title e | Some t \<Rightarrow> trim t),
       description := (case new_description u of None \<Rightarrow> description e | Some t \<Rightarrow> trim t),
       startTime := (case new_startTime u of None \<Rightarrow> startTime e | Some t \<Rightarrow> t),
       endTime := (case new_endTime u of None \<Rightarrow> endTime e | Some t \<Rightarrow> t),
       status := (case new_status u of None \<Rightarrow> status e
                  | Some s \<Rightarrow> (case status_of_name s of None \<Rightarrow> status e | Some st \<Rightarrow> st)),
       category := (case new_category u of None \<Rightarrow> category e | Some c \<Rightarrow> c),
       location := (case new_location u of None \<Rightarrow> location e | Some l \<Rightarrow> trim l)\<rparr>"

definition put_route ::
  "odm \<Rightarrow> faults \<Rightarrow> time \<Rightarrow> oid \<Rightarrow> oid \<Rightarrow> event_update \<Rightarrow> db \<Rightarrow> response \<times> db" where
  "put_route od flt now caller i u d =
     (case checkResourceOwnership caller i d of
        Inl r \<Rightarrow> (r, d)
      | Inr ev \<Rightarrow>
          (let newStartTime = (case new_startTime u of None \<Rightarrow> startTime ev | Some t \<Rightarrow> t);
               newEndTime = (case new_endTime u of None \<Rightarrow> endTime ev | Some t \<Rightarrow> t);
               timed = (new_startTime u \<noteq> None \<or> new_endTime u \<noteq> None)
           in if \<not> validateEventUpdate now u then (reply 400 ''Validation failed'', d)
              else if status ev = SWAP_PENDING
                then (reply 400 ''Cannot update event while swap is pending'', d)
              else if timed \<and> newEndTime \<le> newStartTime
                then (reply 400 ''End time must be after start time'', d)
              else if timed \<and>
                      checkTimeConflicts (events d) (userId ev) newStartTime newEndTime (Some i) \<noteq> []
                then (reply 400 ''Time conflict detected with existing events'', d)
              else if \<not> event_validation od now u (apply_update u ev) \<or> event_write1_fails flt
                then (reply 500 ''Failed to update event'', d)
              else (\<lparr>http_status = 200, res_message = ''Event updated successfully'',
                     res_data = EventData (apply_update u ev)\<rparr>,
                    d\<lparr>events := update_doc i (apply_update u) (events d)\<rparr>)))"

definition delete_route :: "faults \<Rightarrow> oid \<Rightarrow> oid \<Rightarrow> db \<Rightarrow> response \<times> db" where
  "delete_route flt caller i d =
     (case checkResourceOwnership caller i d of
        Inl r \<Rightarrow> (r, d)
      | Inr ev \<Rightarrow>
          if status ev = SWAP_PENDING
            then (reply 400 ''Cannot delete event while swap is pending'', d)
          else if event_write1_fails flt then (reply 500 ''Failed to delete event'', d)
          else (reply 200 ''Event deleted successfully'', d\<lparr>events := delete_doc i (events d)\<rparr>))"

definition patch_route ::
  "odm \<Rightarrow> faults \<Rightarrow> time \<Rightarrow> oid \<Rightarrow> oid \<Rightarrow> string \<Rightarrow> db \<Rightarrow> response \<times> db" where
  "patch_route od flt now caller i s d =
     (case checkResourceOwnership caller i d of
        Inl r \<Rightarrow> (r, d)
      | Inr ev \<Rightarrow>
          (case (if s \<in> set [''BUSY'', ''SWAPPABLE''] then status_of_name s else None) of
             None \<Rightarrow> (reply 400 ''Validation failed'', d)
           | Some st \<Rightarrow>
               if status ev = SWAP_PENDING
                 then (reply 400 ''Cannot change status while swap is pending'', d)
               else if startTime ev \<le> now
                 then (reply 400 ''Cannot change status of past events'', d)
               else if \<not> event_validation od now no_update (set_status st ev)
                       \<or> event_write1_fails flt
                 then (reply 500 ''Failed to update event status'', d)
               else (\<lparr>http_status = 200,
                      res_message = (if st = BUSY then ''Event marked as busy''
                                     else ''Event marked as swappable''),
                      res_data = EventData (set_status st ev)\<rparr>,
                     d\<lparr>events := update_doc i (set_status st) (events d)\<rparr>)))"

text \<open>The body of \<^verbatim>\<open>POST /api/events\<close> and the route.\<close>

record event_input =
  in_title :: string
  in_description :: "string option"
  in_startTime :: time
  in_endTime :: time
  in_category :: "string option"
  in_location :: "string option"

definition validateEvent :: "time \<Rightarrow> event_input \<Rightarrow> bool" where
  "validateEvent now inp =
     (1 \<le> length (trim (in_title inp)) \<and> length (trim (in_title inp)) \<le> 100 \<and>
      opt_ok (\<lambda>t. length (trim t) \<le> 500) (in_description inp) \<and>
      now < in_startTime inp \<and>
      in_startTime inp < in_endTime inp \<and>
      opt_ok (\<lambda>c. c \<in> set categories) (in_category inp) \<and>
      opt_ok (\<lambda>l. length (trim l) \<le> 200) (in_location inp))"

definition new_event :: "oid \<Rightarrow> event_input \<Rightarrow> event" where
  "new_event owner inp =
     \<lparr>title = trim (in_title inp),
      description = (case in_description inp of None \<Rightarrow> [] | Some t \<Rightarrow> trim t),
      startTime = in_startTime inp, endTime = in_endTime inp, status = BUSY,
      userId = owner, originalUserId = Some owner,
      category = (case in_category inp of None \<Rightarrow> ''other'' | Some c \<Rightarrow> c),
      location = (case in_location inp of None \<Rightarrow> [] | Some l \<Rightarrow> trim l),
      isRecurring = False, swapHistory = []\<rparr>"

definition post_event_route ::
  "faults \<Rightarrow> time \<Rightarrow> oid \<Rightarrow> oid \<Rightarrow> event_input \<Rightarrow> db \<Rightarrow> response \<times> db" where
  "post_event_route flt now newId caller inp d =
     (if \<not> validateEvent now inp then (reply 400 ''Validation failed'', d)
      else if checkTimeConflicts (events d) caller (in_startTime inp) (in_endTime inp) None \<noteq> []
        then (reply 400 ''Time conflict detected with existing events'', d)
      else if event_write1_fails flt \<or> findById (events d) newId \<noteq> None
        then (reply 500 ''Failed to create event'', d)
      else (\<lparr>http_status = 201, res_message = ''Event created successfully'',
             res_data = EventData (new_event caller inp)\<rparr>,
            d\<lparr>events := events d @ [(newId, new_event caller inp)]\<rparr>))"

subsection \<open>GET /api/swap/incoming and GET /api/swap/outgoing\<close>

definition status_name :: "request_status \<Rightarrow> string" where
  "status_name s =
     (case s of PENDING \<Rightarrow> ''PENDING'' | ACCEPTED \<Rightarrow> ''ACCEPTED''
      | REJECTED \<Rightarrow> ''REJECTED'' | CANCELLED \<Rightarrow> ''CANCELLED'')"

text \<open>
  The query parameters: \<open>None\<close> is an absent one; \<^verbatim>\<open>page\<close> and \<^verbatim>\<open>limit\<close> are the
  integers they parse to.
\<close>

definition valid_paging :: "int option \<Rightarrow> int option \<Rightarrow> bool" where
  "valid_paging page limit = (opt_ok (\<lambda>p. 1 \<le> p) page \<and> opt_ok (\<lambda>l. 1 \<le> l \<and> l \<le> 50) limit)"

text \<open>
  \<^verbatim>\<open>.sort({ createdAt: -1 }).skip(skip).limit(limit)\<close>; requests created at the same
  instant keep the order of the collection.
\<close>

definition page_of ::
  "int option \<Rightarrow> int option \<Rightarrow> (oid \<times> swap_request) list \<Rightarrow> (oid \<times> swap_request) list" where
  "page_of page limit rs =
     (let p = (case page of None \<Rightarrow> 1 | Some p \<Rightarrow> p);
          l = (case limit of None \<Rightarrow> 20 | Some l \<Rightarrow> l)
      in take (nat l) (drop (nat ((p - 1) * l)) (sort_key (\<lambda>(k, r). - createdAt r) rs)))"

definition incoming_route ::
  "time \<Rightarrow> oid \<Rightarrow> string option \<Rightarrow> int option \<Rightarrow> int option \<Rightarrow> db \<Rightarrow> response" where
  "incoming_route now caller st page limit d =
     (if \<not> opt_ok (\<lambda>s. s \<in> set [''PENDING'', ''ACCEPTED'', ''REJECTED'']) st
         \<or> \<not> valid_paging page limit
        then reply 400 ''Validation failed''
      else \<lparr>http_status = 200, res_message = [],
            res_data = RequestList (page_of page limit
              (filter (\<lambda>(k, r). requestedTo r = caller \<and>
                   (case st of
                      Some s \<Rightarrow> status_name (rstatus r) = s
                    | None \<Rightarrow> rstatus r = PENDING \<and> now < expiresAt r))
                 (requests d)))\<rparr>)"

definition outgoing_route ::
  "oid \<Rightarrow> string option \<Rightarrow> int option \<Rightarrow> int option \<Rightarrow> db \<Rightarrow> response" where
  "outgoing_route caller st page limit d =
     (if \<not> opt_ok (\<lambda>s. s \<in> set [''PENDING'', ''ACCEPTED'', ''REJECTED'', ''CANCELLED'']) st
         \<or> \<not> valid_paging page limit
        then reply 400 ''Validation failed''
      else \<lparr>http_status = 200, res_message = [],
            res_data = RequestList (page_of page limit
              (filter (\<lambda>(k, r). requestedBy r = caller \<and>
                   (case st of Some s \<Rightarrow> status_name (rstatus r) = s | None \<Rightarrow> True))
                 (requests d)))\<rparr>)"

subsection \<open>The calls that write\<close>

datatype api_call =
    CreateEvent oid oid event_input
  | UpdateEvent oid oid event_update
  | DeleteEvent oid oid
  | ChangeStatus oid oid string
  | CreateSwap oid oid oid oid string
  | RespondSwap oid oid string string
  | CancelSwap oid oid

fun perform :: "odm \<Rightarrow> faults \<Rightarrow> time \<Rightarrow> api_call \<Rightarrow> db \<Rightarrow> response \<times> db" where
  "perform od flt now (CreateEvent newId caller inp) d = post_event_route flt now newId caller inp d"
| "perform od flt now (UpdateEvent caller i u) d = put_route od flt now caller i u d"
| "perform od flt now (DeleteEvent caller i) d = delete_route flt caller i d"
| "perform od flt now (ChangeStatus caller i s) d = patch_route od flt now caller i s d"
| "perform od flt now (CreateSwap newId caller my their m) d =
     create_route od flt now newId caller my their m d"
| "perform od flt now (RespondSwap caller rid action m) d =
     respond_route od flt now caller rid action m d"
| "perform od flt now (CancelSwap caller rid) d = cancel_route od flt now caller rid d"

subsection \<open>Stored documents that pass their schema\<close>

text \<open>
  All validators of \<^verbatim>\<open>eventSchema\<close> and of \<^verbatim>\<open>swapRequestSchema\<close> at once. Only
  \<^verbatim>\<open>startTime\<close>'s compares with the clock: a stored event stops passing it when it starts.
\<close>

definition event_schema_ok :: "time \<Rightarrow> event \<Rightarrow> bool" where
  "event_schema_ok now e =
     (1 \<le> length (title e) \<and> length (title e) \<le> 100 \<and> length (description e) \<le> 500 \<and>
      now < startTime e \<and> startTime e < endTime e \<and> category e \<in> set categories \<and>
      length (location e) \<le> 200)"

definition request_schema_ok :: "swap_request \<Rightarrow> bool" where
  "request_schema_ok r = (length (message r) \<le> 300 \<and> length (responseMessage r) \<le> 300)"

subsection \<open>At most one pending request for a pair of slots\<close>

fun pending_pairs_unique :: "(oid \<times> swap_request) list \<Rightarrow> bool" where
  "pending_pairs_unique [] = True"
| "pending_pairs_unique ((k, r) # rs) =
     ((rstatus r = PENDING \<longrightarrow> \<not> existingRequest rs (mySlotId r) (theirSlotId r))
      \<and> pending_pairs_unique rs)"

subsection \<open>Calls that resolve a request\<close>

text \<open>The call answers (accepts, rejects or cancels) a pending request that refers to slot \<open>i\<close>.\<close>

definition refers_to :: "db \<Rightarrow> oid \<Rightarrow> oid \<Rightarrow> bool" where
  "refers_to d rid i =
     (case findById (requests d) rid of
        None \<Rightarrow> False
      | Some r \<Rightarrow> rstatus r = PENDING \<and> (mySlotId r = i \<or> theirSlotId r = i))"

fun resolves :: "db \<Rightarrow> oid \<Rightarrow> api_call \<Rightarrow> bool" where
  "resolves d i (RespondSwap caller rid action m) = refers_to d rid i"
| "resolves d i (CancelSwap caller rid) = refers_to d rid i"
| "resolves d i c = False"

subsection \<open>Example data\<close>

definition ex_now :: time where
  "ex_now = 1000000"

definition ex_slot :: "oid \<Rightarrow> time \<Rightarrow> slot_status \<Rightarrow> event" where
  "ex_slot owner start st =
     \<lparr>title = ''Standup'', description = [], startTime = start, endTime = start + 3600000,
      status = st, userId = owner, originalUserId = Some owner, category = ''work'',
      location = [], isRecurring = False, swapHistory = []\<rparr>"

definition ex_request :: swap_request where
  "ex_request = new_request ex_now 10 20 1 2 ''hi''"

text \<open>User 1 owns slot 10, user 2 owns slot 20, both swappable and in the future.\<close>

definition ex_db_swappable :: db where
  "ex_db_swappable =
     \<lparr>events = [(10, ex_slot 1 5000000 SWAPPABLE), (20, ex_slot 2 9000000 SWAPPABLE)],
      requests = []\<rparr>"

text \<open>The same slots frozen by the pending request 100 of user 1 to user 2.\<close>

definition ex_db_pending :: db where
  "ex_db_pending =
     \<lparr>events = [(10, ex_slot 1 5000000 SWAP_PENDING), (20, ex_slot 2 9000000 SWAP_PENDING)],
      requests = [(100, ex_request)]\<rparr>"

text \<open>The request 100, cancelled by user 1 and now in its terminal state.\<close>

definition ex_db_cancelled :: db where
  "ex_db_cancelled =
     \<lparr>events = [(10, ex_slot 1 5000000 SWAPPABLE), (20, ex_slot 2 9000000 SWAPPABLE)],
      requests = [(100, cancelled 2000000 ex_request)]\<rparr>"

section \<open>Properties\<close>

subsection \<open>The store and the strings\<close>

lemmas ex_defs =
  ex_now_def ex_slot_def ex_request_def ex_db_swappable_def ex_db_pending_def
  new_request_def seven_days_def mongoose_def no_faults_def

lemmas route_defs =
  findById_def update_doc_def reply_def valid_message_def trim_def is_space_def
  isExpired_def event_validation_def request_validation_def no_update_def categories_def
  resolve_def cancelled_def take_over_def history_entry_def set_status_def method_reply_def
  update_both_statuses_def

lemma findById_update_doc:
  "findById (update_doc i f c) k = (if k = i then map_option f (findById c k) else findById c k)"
  by (induction c) (auto simp: findById_def update_doc_def)

lemma findById_delete_doc:
  "findById (delete_doc i c) k = (if k = i then None else findById c k)"
  by (induction c) (auto simp: findById_def delete_doc_def)

lemma findById_append:
  "findById (c @ c') k = (case findById c k of None \<Rightarrow> findById c' k | Some v \<Rightarrow> Some v)"
  by (simp add: findById_def map_add_def split: option.split)

lemma dropWhile_rev_dropWhile:
  "dropWhile P (rev (dropWhile P (rev (dropWhile P s)))) = rev (dropWhile P (rev (dropWhile P s)))"
  by (metis (no_types, lifting) Nil_is_rev_conv dropWhile_eq_Nil_conv
      dropWhile_eq_self_iff dropWhile_idem dropWhile_last hd_rev last_rev)

lemma trim_trim: "trim (trim s) = trim s"
  by (simp add: trim_def dropWhile_rev_dropWhile)

lemma event_schema_ok_validation:
  "save_validates_unmodified od \<longrightarrow> event_schema_ok now e \<Longrightarrow> event_validation od now no_update e"
  by (auto simp: event_validation_def event_schema_ok_def no_update_def Let_def)

lemma revert_and_resolve_success:
  assumes "request_validation od assigned (f R)"
  shows "revert_and_resolve od no_faults rid R assigned f d =
     (Inr (f R),
      d\<lparr>events := update_doc (theirSlotId R) (set_status SWAPPABLE)
                    (update_doc (mySlotId R) (set_status SWAPPABLE) (events d)),
        requests := update_doc rid f (requests d)\<rparr>)"
  using assms by (simp add: revert_and_resolve_def update_both_statuses_def no_faults_def)

lemma findById_reverted:
  "findById (update_doc b (set_status SWAPPABLE) (update_doc a (set_status SWAPPABLE) ev)) k =
     (if k = a \<or> k = b then map_option (\<lambda>e. e\<lparr>status := SWAPPABLE\<rparr>) (findById ev k)
      else findById ev k)"
  by (cases "findById ev k") (auto simp: findById_update_doc set_status_def [abs_def])

subsection \<open>accept\<close>

lemma accept_method_success:
  assumes "rstatus R = PENDING" and "\<not> isExpired now R"
    and "findById (events d) (mySlotId R) = Some a"
    and "findById (events d) (theirSlotId R) = Some b"
    and "length (trim m) \<le> 300"
    and "save_validates_unmodified od \<longrightarrow>
           event_schema_ok now a \<and> event_schema_ok now b \<and> request_schema_ok R"
  shows "accept_method od no_faults now rid R m d =
     (Inr (resolve ACCEPTED m now R),
      d\<lparr>events := update_doc (theirSlotId R) (take_over (userId a) now rid)
                    (update_doc (mySlotId R) (take_over (userId b) now rid) (events d)),
        requests := update_doc rid (resolve ACCEPTED m now) (requests d)\<rparr>)"
proof -
  have "event_validation od now no_update a" "event_validation od now no_update b"
    using assms(6) by (simp_all add: event_schema_ok_validation)
  moreover have "request_validation od True (resolve ACCEPTED m now R)"
    using assms(5,6) by (simp add: request_validation_def resolve_def request_schema_ok_def)
  ultimately show ?thesis
    using assms(1-4) by (simp add: accept_method_def no_faults_def)
qed

text \<open>
  Claim C1, amended. Let \<open>R\<close> be a stored request that is pending and not expired, whose two
  slots exist with status \<open>SWAP_PENDING\<close>, and let the recipient accept it with a
  message of at most 300 characters after trimming. Where the library validates unmodified
  paths on save, let the two slots and the request still pass their schemas' validators (so
  both slots start in the future). Then, with no write failing, the route answers 200, the
  two slots have exchanged their owners and are \<open>BUSY\<close>, and the stored request is
  \<open>ACCEPTED\<close> with the trimmed message as \<open>responseMessage\<close> and \<open>respondedAt\<close> set to
  the time of the call.
\<close>

theorem accept_exchanges_owners:
  assumes "findById (requests d) rid = Some R"
    and "rstatus R = PENDING" and "\<not> isExpired now R" and "requestedTo R = caller"
    and "findById (events d) (mySlotId R) = Some a"
    and "findById (events d) (theirSlotId R) = Some b"
    and "status a = SWAP_PENDING" and "status b = SWAP_PENDING"
    and "valid_message m"
    and "save_validates_unmodified od \<longrightarrow>
           event_schema_ok now a \<and> event_schema_ok now b \<and> request_schema_ok R"
    and "respond_route od no_faults now caller rid ''accept'' m d = (res, d')"
  shows "http_status res = 200 \<and>
         map_option userId (findById (events d') (mySlotId R)) = Some (userId b) \<and>
         map_option userId (findById (events d') (theirSlotId R)) = Some (userId a) \<and>
         map_option status (findById (events d') (mySlotId R)) = Some BUSY \<and>
         map_option status (findById (events d') (theirSlotId R)) = Some BUSY \<and>
         findById (requests d') rid =
           Some (R\<lparr>rstatus := ACCEPTED, responseMessage := trim m, respondedAt := Some now\<rparr>)"
proof -
  have len: "length (trim (trim m)) \<le> 300"
    using assms(9) by (simp add: valid_message_def trim_trim)
  have "respond_route od no_faults now caller rid ''accept'' m d =
          method_reply ''Swap request accepted successfully''
            (accept_method od no_faults now rid R (trim m) d)"
    using assms(1-9) by (simp add: respond_route_def)
  then have res: "res = \<lparr>http_status = 200, res_message = ''Swap request accepted successfully'',
                    res_data = RequestData (resolve ACCEPTED (trim m) now R)\<rparr>"
    and d': "d' = d\<lparr>events := update_doc (theirSlotId R) (take_over (userId a) now rid)
                    (update_doc (mySlotId R) (take_over (userId b) now rid) (events d)),
        requests := update_doc rid (resolve ACCEPTED (trim m) now) (requests d)\<rparr>"
    using assms(11) accept_method_success [OF assms(2,3,5,6) len assms(10), of rid]
    by (simp_all add: method_reply_def)
  have same_slot: "mySlotId R = theirSlotId R \<Longrightarrow> a = b"
    using assms(5,6) by simp
  show ?thesis
    using res d' assms(1,5,6) same_slot
    by (auto simp: findById_update_doc take_over_def resolve_def trim_trim)
qed

theorem accept_exchanges_owners_witness:
  "findById (requests ex_db_pending) 100 = Some ex_request \<and>
   rstatus ex_request = PENDING \<and> \<not> isExpired 2000000 ex_request \<and> requestedTo ex_request = 2 \<and>
   findById (events ex_db_pending) (mySlotId ex_request) = Some (ex_slot 1 5000000 SWAP_PENDING) \<and>
   findById (events ex_db_pending) (theirSlotId ex_request) = Some (ex_slot 2 9000000 SWAP_PENDING) \<and>
   valid_message ''ok'' \<and>
   event_schema_ok 2000000 (ex_slot 1 5000000 SWAP_PENDING) \<and>
   event_schema_ok 2000000 (ex_slot 2 9000000 SWAP_PENDING) \<and> request_schema_ok ex_request \<and>
   (case respond_route mongoose no_faults 2000000 2 100 ''accept'' ''ok'' ex_db_pending of
      (res, d') \<Rightarrow>
        http_status res = 200 \<and>
        map_option userId (findById (events d') 10) = Some 2 \<and>
        map_option userId (findById (events d') 20) = Some 1 \<and>
        map_option status (findById (events d') 10) = Some BUSY \<and>
        map_option status (findById (events d') 20) = Some BUSY \<and>
        map_option rstatus (findById (requests d') 100) = Some ACCEPTED \<and>
        map_option responseMessage (findById (requests d') 100) = Some ''ok'' \<and>
        map_option respondedAt (findById (requests d') 100) = Some (Some 2000000))"
proof -
  let ?a = "ex_slot 1 5000000 SWAP_PENDING" and ?b = "ex_slot 2 9000000 SWAP_PENDING"
  obtain res d' where
    out: "respond_route mongoose no_faults 2000000 2 100 ''accept'' ''ok'' ex_db_pending = (res, d')"
    by (cases "respond_route mongoose no_faults 2000000 2 100 ''accept'' ''ok'' ex_db_pending")
  have h1: "findById (requests ex_db_pending) 100 = Some ex_request"
    by (simp add: ex_defs findById_def)
  have h2: "rstatus ex_request = PENDING" and h3: "\<not> isExpired 2000000 ex_request"
    and h4: "requestedTo ex_request = 2"
    by (simp_all add: ex_defs isExpired_def)
  have h5: "findById (events ex_db_pending) (mySlotId ex_request) = Some ?a"
    and h6: "findById (events ex_db_pending) (theirSlotId ex_request) = Some ?b"
    by (simp_all add: ex_defs findById_def)
  have h7: "status ?a = SWAP_PENDING" and h8: "status ?b = SWAP_PENDING"
    by (simp_all add: ex_slot_def)
  have h9: "valid_message ''ok''"
    by (simp add: valid_message_def trim_def is_space_def)
  have ok: "event_schema_ok 2000000 ?a" "event_schema_ok 2000000 ?b" "request_schema_ok ex_request"
    by (simp_all add: event_schema_ok_def request_schema_ok_def ex_defs categories_def
        trim_def is_space_def)
  then have h10: "save_validates_unmodified mongoose \<longrightarrow>
      event_schema_ok 2000000 ?a \<and> event_schema_ok 2000000 ?b \<and> request_schema_ok ex_request"
    by simp
  have tr: "trim ''ok'' = ''ok''"
    by (simp add: trim_def is_space_def)
  have ids: "mySlotId ex_request = 10" "theirSlotId ex_request = 20"
    by (simp_all add: ex_defs)
  show ?thesis
    using accept_exchanges_owners [OF h1 h2 h3 h4 h5 h6 h7 h8 h9 h10 out]
      h1 h2 h3 h4 h5 h6 h9 ok
    by (simp add: out tr ids ex_slot_def)
qed

text \<open>
  The claim as written fails on the message: a supplied \<open>'' ok''\<close> is stored as \<open>''ok''\<close>.
\<close>

theorem accept_trims_message:
  "rstatus ex_request = PENDING \<and> \<not> isExpired 2000000 ex_request \<and> requestedTo ex_request = 2 \<and>
   map_option status (findById (events ex_db_pending) (mySlotId ex_request)) = Some SWAP_PENDING \<and>
   map_option status (findById (events ex_db_pending) (theirSlotId ex_request)) = Some SWAP_PENDING \<and>
   (case respond_route mongoose no_faults 2000000 2 100 ''accept'' '' ok'' ex_db_pending of
      (res, d') \<Rightarrow> http_status res = 200 \<and>
         map_option responseMessage (findById (requests d') 100) \<noteq> Some '' ok'')"
  by (simp add: ex_defs route_defs respond_route_def accept_method_def)

text \<open>
  With Mongoose's validation of all paths, a slot that has started can no longer be saved:
  accepting the same request after slot 10 has begun fails and changes nothing.
\<close>

lemma accept_started_slot_fails:
  "respond_route mongoose no_faults 6000000 2 100 ''accept'' ''ok'' ex_db_pending =
     (reply 500 ''Event validation failed'', ex_db_pending)"
  by (simp add: ex_defs route_defs respond_route_def accept_method_def)

subsection \<open>create\<close>

lemma create_route_failure_keeps_db:
  "create_route od flt now newId requester my their m d = (res, d') \<Longrightarrow>
   http_status res \<noteq> 201 \<Longrightarrow> d' = d"
  by (auto simp: create_route_def reply_def Let_def split: option.splits sum.splits if_splits)

text \<open>
  Claim C7. For a request whose message passed the route's validation, \<open>create\<close> answers
  400 when \<open>mySlotId\<close> equals \<open>theirSlotId\<close>; otherwise 404 when either slot does not
  exist; otherwise 403 when \<open>mySlot\<close> is not owned by the requester; otherwise 400 when
  \<open>theirSlot\<close> is owned by the requester, when either slot is not \<open>SWAPPABLE\<close>, or when
  either slot's start time is not strictly in the future. Whenever the answer is not 201,
  whatever the library's behaviour and whichever writes fail, the database is unchanged: no
  request is created and no slot is mutated.
\<close>

theorem create_route_failure_cases:
  assumes "valid_message m"
    and "create_route od flt now newId requester my their m d = (res, d')"
  shows "(my = their \<longrightarrow> http_status res = 400) \<and>
         (my \<noteq> their \<longrightarrow> findById (events d) my = None \<or> findById (events d) their = None \<longrightarrow>
            http_status res = 404) \<and>
         (\<forall>mySlot theirSlot.
            my \<noteq> their \<longrightarrow> findById (events d) my = Some mySlot \<longrightarrow>
            findById (events d) their = Some theirSlot \<longrightarrow>
              (userId mySlot \<noteq> requester \<longrightarrow> http_status res = 403) \<and>
              (userId mySlot = requester \<longrightarrow>
                 (userId theirSlot = requester \<longrightarrow> http_status res = 400) \<and>
                 (userId theirSlot \<noteq> requester \<longrightarrow>
                    (status mySlot \<noteq> SWAPPABLE \<or> status theirSlot \<noteq> SWAPPABLE \<longrightarrow>
                       http_status res = 400) \<and>
                    (status mySlot = SWAPPABLE \<longrightarrow> status theirSlot = SWAPPABLE \<longrightarrow>
                     (startTime mySlot \<le> now \<or> startTime theirSlot \<le> now) \<longrightarrow>
                       http_status res = 400)))) \<and>
         (http_status res \<noteq> 201 \<longrightarrow> d' = d)"
proof -
  have out: "create_route od flt now newId requester my their m d = (res, d')"
    by (fact assms(2))
  have keep: "http_status res \<noteq> 201 \<longrightarrow> d' = d"
    using out create_route_failure_keeps_db by blast
  have self: "my = their \<longrightarrow> http_status res = 400"
    using assms by (auto simp: create_route_def reply_def)
  have missing: "my \<noteq> their \<longrightarrow> findById (events d) my = None \<or> findById (events d) their = None
      \<longrightarrow> http_status res = 404"
    using assms by (auto simp: create_route_def reply_def split: option.splits)
  have owner: "http_status res = 403"
    if "my \<noteq> their" "findById (events d) my = Some mySlot"
       "findById (events d) their = Some theirSlot" "userId mySlot \<noteq> requester"
    for mySlot theirSlot
    using assms(1) that out [symmetric] by (simp add: create_route_def reply_def)
  have own_target: "http_status res = 400"
    if "my \<noteq> their" "findById (events d) my = Some mySlot"
       "findById (events d) their = Some theirSlot" "userId mySlot = requester"
       "userId theirSlot = requester"
    for mySlot theirSlot
    using assms(1) that out [symmetric] by (simp add: create_route_def reply_def)
  have not_swappable: "http_status res = 400"
    if "my \<noteq> their" "findById (events d) my = Some mySlot"
       "findById (events d) their = Some theirSlot" "userId mySlot = requester"
       "userId theirSlot \<noteq> requester"
       "status mySlot \<noteq> SWAPPABLE \<or> status theirSlot \<noteq> SWAPPABLE"
    for mySlot theirSlot
    using assms(1) that out [symmetric]
    by (auto simp: create_route_def reply_def split: if_splits)
  have past: "http_status res = 400"
    if "my \<noteq> their" "findById (events d) my = Some mySlot"
       "findById (events d) their = Some theirSlot" "userId mySlot = requester"
       "userId theirSlot \<noteq> requester" "status mySlot = SWAPPABLE"
       "status theirSlot = SWAPPABLE"
       "startTime mySlot \<le> now \<or> startTime theirSlot \<le> now"
    for mySlot theirSlot
    using assms(1) that out [symmetric]
    by (auto simp: create_route_def reply_def split: if_splits)
  show ?thesis
    using keep self missing owner own_target not_swappable past by blast
qed

text \<open>
  The cases at work on the two swappable slots: a slot with itself, a missing slot, someone
  else's slot, and a slot that has started.
\<close>

theorem create_route_failure_cases_witness:
  "valid_message ''hi'' \<and>
   create_route mongoose no_faults ex_now 100 1 10 10 ''hi'' ex_db_swappable =
     (reply 400 ''Cannot swap a slot with itself'', ex_db_swappable) \<and>
   findById (events ex_db_swappable) 30 = None \<and>
   create_route mongoose no_faults ex_now 100 1 10 30 ''hi'' ex_db_swappable =
     (reply 404 ''One or both slots not found'', ex_db_swappable) \<and>
   map_option userId (findById (events ex_db_swappable) 10) = Some 1 \<and>
   create_route mongoose no_faults ex_now 100 3 10 20 ''hi'' ex_db_swappable =
     (reply 403 ''You can only swap your own slots'', ex_db_swappable) \<and>
   map_option startTime (findById (events ex_db_swappable) 10) = Some 5000000 \<and>
   create_route mongoose no_faults 5000000 100 1 10 20 ''hi'' ex_db_swappable =
     (reply 400 ''Cannot swap past events'', ex_db_swappable)"
proof -
  have vm: "valid_message ''hi''"
    by (simp add: valid_message_def trim_def is_space_def)
  have a: "findById (events ex_db_swappable) 10 = Some (ex_slot 1 5000000 SWAPPABLE)"
    and b: "findById (events ex_db_swappable) 20 = Some (ex_slot 2 9000000 SWAPPABLE)"
    and c: "findById (events ex_db_swappable) 30 = None"
    by (simp_all add: ex_defs findById_def)
  have m1: "res_message (fst (create_route mongoose no_faults ex_now 100 1 10 10 ''hi''
              ex_db_swappable)) = ''Cannot swap a slot with itself''"
    and m2: "res_message (fst (create_route mongoose no_faults ex_now 100 1 10 30 ''hi''
              ex_db_swappable)) = ''One or both slots not found''"
    and m3: "res_message (fst (create_route mongoose no_faults ex_now 100 3 10 20 ''hi''
              ex_db_swappable)) = ''You can only swap your own slots''"
    and m4: "res_message (fst (create_route mongoose no_faults 5000000 100 1 10 20 ''hi''
              ex_db_swappable)) = ''Cannot swap past events''"
    and nd: "res_data (fst (create_route mongoose no_faults ex_now 100 1 10 10 ''hi''
              ex_db_swappable)) = NoData"
            "res_data (fst (create_route mongoose no_faults ex_now 100 1 10 30 ''hi''
              ex_db_swappable)) = NoData"
            "res_data (fst (create_route mongoose no_faults ex_now 100 3 10 20 ''hi''
              ex_db_swappable)) = NoData"
            "res_data (fst (create_route mongoose no_faults 5000000 100 1 10 20 ''hi''
              ex_db_swappable)) = NoData"
    by (simp_all add: create_route_def vm a b c reply_def ex_slot_def)
  have eq: "x = (reply c t, d)"
    if "http_status (fst x) = c" "res_message (fst x) = t" "res_data (fst x) = NoData"
       "snd x = d" for x :: "response \<times> db" and c t d
    using that by (cases x) (auto simp: reply_def)
  note f1 = create_route_failure_cases [where od = mongoose and flt = no_faults
      and now = ex_now and newId = 100 and requester = 1 and my = 10 and their = 10
      and d = ex_db_swappable, OF vm surjective_pairing]
  note f2 = create_route_failure_cases [where od = mongoose and flt = no_faults
      and now = ex_now and newId = 100 and requester = 1 and my = 10 and their = 30
      and d = ex_db_swappable, OF vm surjective_pairing]
  note f3 = create_route_failure_cases [where od = mongoose and flt = no_faults
      and now = ex_now and newId = 100 and requester = 3 and my = 10 and their = 20
      and d = ex_db_swappable, OF vm surjective_pairing]
  note f4 = create_route_failure_cases [where od = mongoose and flt = no_faults
      and now = 5000000 and newId = 100 and requester = 1 and my = 10 and their = 20
      and d = ex_db_swappable, OF vm surjective_pairing]
  have "create_route mongoose no_faults ex_now 100 1 10 10 ''hi'' ex_db_swappable =
     (reply 400 ''Cannot swap a slot with itself'', ex_db_swappable)"
    using f1 m1 nd(1) by (intro eq) simp_all
  moreover have "create_route mongoose no_faults ex_now 100 1 10 30 ''hi'' ex_db_swappable =
     (reply 404 ''One or both slots not found'', ex_db_swappable)"
    using f2 c m2 nd(2) by (intro eq) simp_all
  moreover have "create_route mongoose no_faults ex_now 100 3 10 20 ''hi'' ex_db_swappable =
     (reply 403 ''You can only swap your own slots'', ex_db_swappable)"
    using f3 a b m3 nd(3) by (intro eq) (simp_all add: ex_slot_def)
  moreover have "create_route mongoose no_faults 5000000 100 1 10 20 ''hi'' ex_db_swappable =
     (reply 400 ''Cannot swap past events'', ex_db_swappable)"
    using f4 a b m4 nd(4) by (intro eq) (simp_all add: ex_slot_def)
  ultimately show ?thesis
    using vm a c by (simp add: ex_slot_def)
qed

lemma save_new_request_Inr:
  assumes "save_new_request od flt now newId r d = Inr d'"
  shows "d' = d\<lparr>events := post_save flt (post_save_sees_isNew od) r (events d),
                   requests := requests d @ [(newId, r)]\<rparr>
         \<and> findById (requests d) newId = None \<and> \<not> violates_pending_index (requests d) r"
proof -
  have "insert_request newId r (requests d) = Inr (requests d @ [(newId, r)])
        \<and> findById (requests d) newId = None \<and> \<not> violates_pending_index (requests d) r"
    using assms
    by (cases "findById (requests d) newId \<noteq> None \<or> violates_pending_index (requests d) r")
       (auto simp: save_new_request_def insert_request_def split: if_splits option.splits)
  then show ?thesis
    using assms by (auto simp: save_new_request_def split: if_splits option.splits)
qed

lemma create_route_created:
  assumes "create_route od flt now newId requester my their m d = (res, d')"
    and "http_status res = 201"
  shows "\<exists>theirSlot. findById (events d) their = Some theirSlot \<and>
           res_data res = RequestData (new_request now my their requester (userId theirSlot) m) \<and>
           requests d' = requests d @ [(newId, new_request now my their requester (userId theirSlot) m)] \<and>
           events d' = post_save flt (post_save_sees_isNew od)
                         (new_request now my their requester (userId theirSlot) m) (events d) \<and>
           findById (requests d) newId = None"
proof -
  obtain mySlot theirSlot where slots: "findById (events d) my = Some mySlot"
      "findById (events d) their = Some theirSlot"
    using assms by (cases "findById (events d) my"; cases "findById (events d) their")
      (auto simp: create_route_def reply_def split: if_splits)
  let ?r = "new_request now my their requester (userId theirSlot) m"
  have "\<exists>x. save_new_request od flt now newId ?r d = Inr x \<and> res_data res = RequestData ?r \<and> d' = x"
    using assms slots
    by (cases "save_new_request od flt now newId ?r d")
       (auto simp: create_route_def reply_def Let_def split: if_splits)
  then show ?thesis
    using slots(2) save_new_request_Inr [of od flt now newId ?r d] by auto
qed

text \<open>
  What the created request looks like, and what the post-save hook does when it reads
  \<^verbatim>\<open>doc.isNew\<close> as true and when it reads it as false.
\<close>

lemma create_route_request:
  assumes "create_route od flt now newId requester my their m d = (res, d')"
    and "http_status res = 201"
  shows "\<exists>r theirSlot. res_data res = RequestData r \<and> findById (events d) their = Some theirSlot \<and>
           rstatus r = PENDING \<and> requestedTo r = userId theirSlot \<and>
           expiresAt r = now + 604800000 \<and> findById (requests d') newId = Some r"
proof -
  obtain theirSlot where t: "findById (events d) their = Some theirSlot"
    and r: "res_data res = RequestData (new_request now my their requester (userId theirSlot) m)"
    and rs: "requests d' = requests d @ [(newId, new_request now my their requester (userId theirSlot) m)]"
    and "events d' = post_save flt (post_save_sees_isNew od)
                       (new_request now my their requester (userId theirSlot) m) (events d)"
    and "findById (requests d) newId = None"
    using create_route_created [OF assms] by blast
  then have "findById (requests d') newId
      = Some (new_request now my their requester (userId theirSlot) m)"
    by (simp add: rs findById_append) (simp add: findById_def)
  then show ?thesis
    using t r by (simp add: new_request_def seven_days_def)
qed

lemma create_route_freezes_when_hook_fires:
  assumes "create_route od no_faults now newId requester my their m d = (res, d')"
    and "http_status res = 201" and "post_save_sees_isNew od"
  shows "map_option status (findById (events d') my) = Some SWAP_PENDING \<and>
         map_option status (findById (events d') their) = Some SWAP_PENDING"
proof -
  obtain theirSlot where "findById (events d) their = Some theirSlot"
    and "res_data res = RequestData (new_request now my their requester (userId theirSlot) m)"
    and "requests d' = requests d @ [(newId, new_request now my their requester (userId theirSlot) m)]"
    and "events d' = post_save no_faults (post_save_sees_isNew od)
                   (new_request now my their requester (userId theirSlot) m) (events d)"
    and "findById (requests d) newId = None"
    using create_route_created [OF assms(1,2)] by blast
  then have ev: "events d' = update_doc their (set_status SWAP_PENDING)
                               (update_doc my (set_status SWAP_PENDING) (events d))"
    using assms(3)
    by (simp add: post_save_def new_request_def update_both_statuses_def no_faults_def)
  have "findById (events d) my \<noteq> None" "findById (events d) their \<noteq> None"
    using assms(1,2) by (auto simp: create_route_def reply_def split: option.splits if_splits)
  then show ?thesis
    by (auto simp: ev findById_update_doc set_status_def)
qed

lemma create_route_keeps_events_when_hook_is_dead:
  assumes "create_route od flt now newId requester my their m d = (res, d')"
    and "\<not> post_save_sees_isNew od"
  shows "events d' = events d"
proof (cases "http_status res = 201")
  case True
  then show ?thesis
    using create_route_created [OF assms(1) True] assms(2) by (auto simp: post_save_def)
next
  case False
  then show ?thesis
    using create_route_failure_keeps_db [OF assms(1)] by simp
qed

text \<open>
  Claim C6. A successful \<open>create\<close> returns a request that is \<open>PENDING\<close>, addressed to the
  owner of \<open>theirSlot\<close> and expiring seven days after the call (lemma
  \<open>create_route_request\<close>). Its slots are frozen by the post-save hook, which is guarded by
  \<^verbatim>\<open>doc.isNew\<close>: where the hook reads that flag as false, as it does with Mongoose, a
  successful \<open>create\<close> stores the pending request and leaves the events collection as it
  was, so both slots are still \<open>SWAPPABLE\<close>.
\<close>

theorem create_leaves_slots_swappable:
  assumes "\<not> post_save_sees_isNew od"
    and "create_route od flt now newId requester my their m d = (res, d')"
    and "http_status res = 201"
  shows "events d' = events d \<and>
         map_option status (findById (events d') my) = Some SWAPPABLE \<and>
         map_option status (findById (events d') their) = Some SWAPPABLE \<and>
         map_option rstatus (findById (requests d') newId) = Some PENDING"
proof -
  have ev: "events d' = events d"
    using create_route_keeps_events_when_hook_is_dead [OF assms(2,1)] .
  have "map_option status (findById (events d) my) = Some SWAPPABLE"
    "map_option status (findById (events d) their) = Some SWAPPABLE"
    using assms(2,3)
    by (auto simp: create_route_def reply_def split: option.splits if_splits)
  moreover obtain r where "findById (requests d') newId = Some r" "rstatus r = PENDING"
    using create_route_request [OF assms(2,3)] by blast
  ultimately show ?thesis
    using ev by simp
qed

text \<open>
  User 1 asks to swap slot 10 for slot 20: the answer is 201, the request is stored, and
  both slots are still \<open>SWAPPABLE\<close>.
\<close>

theorem create_leaves_slots_swappable_witness:
  "\<not> post_save_sees_isNew mongoose \<and>
   (case create_route mongoose no_faults ex_now 100 1 10 20 ''hi'' ex_db_swappable of
     (res, d') \<Rightarrow>
       http_status res = 201 \<and>
       map_option rstatus (findById (requests d') 100) = Some PENDING \<and>
       map_option status (findById (events d') 10) = Some SWAPPABLE \<and>
       map_option status (findById (events d') 20) = Some SWAPPABLE)"
proof -
  obtain res d' where
    out: "create_route mongoose no_faults ex_now 100 1 10 20 ''hi'' ex_db_swappable = (res, d')"
    by (cases "create_route mongoose no_faults ex_now 100 1 10 20 ''hi'' ex_db_swappable")
  have dead: "\<not> post_save_sees_isNew mongoose"
    by (simp add: mongoose_def)
  have created: "http_status res = 201"
    using out
    by (auto simp: ex_defs route_defs create_route_def existingRequest_def save_new_request_def
        pre_save_def insert_request_def violates_pending_index_def post_save_def Let_def)
  show ?thesis
    unfolding out
    using create_leaves_slots_swappable [OF dead out created] dead created
    by auto
qed

subsection \<open>Atomicity\<close>

lemma accept_method_all_or_nothing:
  "accept_method od flt now rid R m d = (Inl e, d') \<Longrightarrow> d' = d"
  by (auto simp: accept_method_def split: if_splits option.splits)

text \<open>
  Claim C2. \<^verbatim>\<open>accept\<close> runs in a transaction (lemma \<open>accept_method_all_or_nothing\<close>),
  \<^verbatim>\<open>reject\<close> does not: when the recipient rejects a pending request and the write of
  the request fails after the two slots were reverted, the answer is 500, both slots are
  stored as \<open>SWAPPABLE\<close> and the request is stored as it was, still \<open>PENDING\<close>.
\<close>

theorem reject_persists_half_a_transition:
  assumes "findById (requests d) rid = Some R"
    and "rstatus R = PENDING" and "\<not> isExpired now R" and "requestedTo R = caller"
    and "findById (events d) (mySlotId R) = Some a"
    and "findById (events d) (theirSlotId R) = Some b"
    and "status a = SWAP_PENDING" and "status b = SWAP_PENDING"
    and "valid_message m"
    and "save_validates_unmodified od \<longrightarrow> request_schema_ok R"
    and "\<not> event_write1_fails flt" and "\<not> event_write2_fails flt"
    and "request_write_fails flt"
    and "respond_route od flt now caller rid ''reject'' m d = (res, d')"
  shows "http_status res = 500 \<and>
         map_option status (findById (events d') (mySlotId R)) = Some SWAPPABLE \<and>
         map_option status (findById (events d') (theirSlotId R)) = Some SWAPPABLE \<and>
         findById (requests d') rid = Some R"
proof -
  have len: "length (trim (trim m)) \<le> 300"
    using assms(9) by (simp add: valid_message_def trim_trim)
  then have ok: "request_validation od True (resolve REJECTED (trim m) now R)"
    using assms(10) by (simp add: request_validation_def resolve_def request_schema_ok_def)
  have "respond_route od flt now caller rid ''reject'' m d =
          method_reply ''Swap request rejected'' (reject_method od flt now rid R (trim m) d)"
    using assms(1-9) by (simp add: respond_route_def)
  moreover have "reject_method od flt now rid R (trim m) d =
      (Inl ''write failed'',
       d\<lparr>events := update_doc (theirSlotId R) (set_status SWAPPABLE)
                     (update_doc (mySlotId R) (set_status SWAPPABLE) (events d))\<rparr>)"
    using assms(2,11-13) ok
    by (simp add: reject_method_def revert_and_resolve_def update_both_statuses_def)
  ultimately have "res = reply 500 ''write failed''"
    and "d' = d\<lparr>events := update_doc (theirSlotId R) (set_status SWAPPABLE)
                     (update_doc (mySlotId R) (set_status SWAPPABLE) (events d))\<rparr>"
    using assms(14) by (simp_all add: method_reply_def)
  then show ?thesis
    using assms(1,5,6) by (simp add: reply_def findById_reverted)
qed

theorem reject_persists_half_a_transition_witness:
  "request_write_fails (no_faults\<lparr>request_write_fails := True\<rparr>) \<and>
   findById (requests ex_db_pending) 100 = Some ex_request \<and> rstatus ex_request = PENDING \<and>
   (case respond_route mongoose (no_faults\<lparr>request_write_fails := True\<rparr>) 2000000 2 100
          ''reject'' ''no'' ex_db_pending of
     (res, d') \<Rightarrow>
       http_status res = 500 \<and>
       map_option status (findById (events d') 10) = Some SWAPPABLE \<and>
       map_option status (findById (events d') 20) = Some SWAPPABLE \<and>
       map_option rstatus (findById (requests d') 100) = Some PENDING)"
proof -
  let ?flt = "no_faults\<lparr>request_write_fails := True\<rparr>"
  obtain res d' where
    out: "respond_route mongoose ?flt 2000000 2 100 ''reject'' ''no'' ex_db_pending = (res, d')"
    by (cases "respond_route mongoose ?flt 2000000 2 100 ''reject'' ''no'' ex_db_pending")
  have h1: "findById (requests ex_db_pending) 100 = Some ex_request"
    by (simp add: ex_defs findById_def)
  have h2: "rstatus ex_request = PENDING" and h3: "\<not> isExpired 2000000 ex_request"
    and h4: "requestedTo ex_request = 2"
    by (simp_all add: ex_defs isExpired_def)
  have h5: "findById (events ex_db_pending) (mySlotId ex_request)
              = Some (ex_slot 1 5000000 SWAP_PENDING)"
    and h6: "findById (events ex_db_pending) (theirSlotId ex_request)
              = Some (ex_slot 2 9000000 SWAP_PENDING)"
    by (simp_all add: ex_defs findById_def)
  have h7: "status (ex_slot 1 5000000 SWAP_PENDING) = SWAP_PENDING"
    and h8: "status (ex_slot 2 9000000 SWAP_PENDING) = SWAP_PENDING"
    by (simp_all add: ex_slot_def)
  have h9: "valid_message ''no''"
    by (simp add: valid_message_def trim_def is_space_def)
  have h10: "save_validates_unmodified mongoose \<longrightarrow> request_schema_ok ex_request"
    by (simp add: request_schema_ok_def ex_defs trim_def is_space_def)
  have h11: "\<not> event_write1_fails ?flt" and h12: "\<not> event_write2_fails ?flt"
    and h13: "request_write_fails ?flt"
    by (simp_all add: no_faults_def)
  have ids: "mySlotId ex_request = 10" "theirSlotId ex_request = 20"
    by (simp_all add: ex_defs)
  show ?thesis
    using reject_persists_half_a_transition [OF h1 h2 h3 h4 h5 h6 h7 h8 h9 h10 h11 h12 h13 out]
      h1 h2 h13
    by (simp add: out ids)
qed

text \<open>
  The same for \<^verbatim>\<open>cancel\<close>, and for \<open>create\<close> when its hook fires: the hook logs a failed
  slot update and the request stays, with one slot frozen and the other not.
\<close>

lemma cancel_persists_half_a_transition:
  "case cancel_route mongoose (no_faults\<lparr>request_write_fails := True\<rparr>) 2000000 1 100
          ex_db_pending of
     (res, d') \<Rightarrow>
       http_status res = 500 \<and>
       map_option status (findById (events d') 10) = Some SWAPPABLE \<and>
       map_option status (findById (events d') 20) = Some SWAPPABLE \<and>
       map_option rstatus (findById (requests d') 100) = Some PENDING"
  by (simp add: ex_defs route_defs cancel_route_def cancel_method_def revert_and_resolve_def)

text \<open>
  No write needs to fail: \<^verbatim>\<open>reject\<close> called with a response message that the schema
  refuses (more than 300 characters) has reverted the slots before \<^verbatim>\<open>this.save()\<close>
  throws. The route never passes such a message on.
\<close>

lemma reject_method_long_message:
  assumes "rstatus R = PENDING" and "300 < length (trim m)"
  shows "reject_method od no_faults now rid R m d =
     (Inl ''SwapRequest validation failed'',
      d\<lparr>events := update_doc (theirSlotId R) (set_status SWAPPABLE)
                    (update_doc (mySlotId R) (set_status SWAPPABLE) (events d))\<rparr>)"
  using assms
  by (simp add: reject_method_def revert_and_resolve_def update_both_statuses_def no_faults_def
      request_validation_def resolve_def)

lemma create_persists_half_a_transition:
  "case create_route (mongoose\<lparr>post_save_sees_isNew := True\<rparr>)
          (no_faults\<lparr>event_write2_fails := True\<rparr>) ex_now 100 1 10 20 ''hi'' ex_db_swappable of
     (res, d') \<Rightarrow>
       http_status res = 201 \<and>
       map_option rstatus (findById (requests d') 100) = Some PENDING \<and>
       map_option status (findById (events d') 10) = Some SWAP_PENDING \<and>
       map_option status (findById (events d') 20) = Some SWAPPABLE"
  by (simp add: ex_defs route_defs create_route_def existingRequest_def save_new_request_def
      pre_save_def insert_request_def violates_pending_index_def post_save_def Let_def)

subsection \<open>Slots that have started\<close>

lemma patch_route_started_slot:
  assumes "findById (events d) i = Some e" and "startTime e \<le> now"
    and "patch_route od flt now caller i s d = (res, d')"
  shows "d' = d \<and> http_status res \<noteq> 200"
  using assms
  by (auto simp: patch_route_def checkResourceOwnership_def reply_def
      split: option.splits if_splits)

lemma put_route_started_slot_validated:
  assumes "findById (events d) i = Some e" and "startTime e \<le> now"
    and "new_startTime u = None" and "save_validates_unmodified od"
    and "put_route od flt now caller i u d = (res, d')"
  shows "d' = d \<and> http_status res \<noteq> 200"
  using assms
  by (auto simp: put_route_def checkResourceOwnership_def reply_def Let_def
      event_validation_def apply_update_def split: option.splits if_splits)

text \<open>
  Claim C3. \<^verbatim>\<open>PATCH /:id/status\<close> refuses a slot that has started (lemma
  \<open>patch_route_started_slot\<close>), but \<^verbatim>\<open>reject\<close> reverts the slots with no look at their
  start: when the recipient rejects a pending request one of whose slots has already
  started, the answer is 200 and that slot is stored as \<open>SWAPPABLE\<close>, its start time still
  in the past.
\<close>

theorem reject_makes_started_slot_swappable:
  assumes "findById (requests d) rid = Some R"
    and "rstatus R = PENDING" and "\<not> isExpired now R" and "requestedTo R = caller"
    and "findById (events d) (mySlotId R) = Some a"
    and "findById (events d) (theirSlotId R) = Some b"
    and "status a = SWAP_PENDING" and "status b = SWAP_PENDING"
    and "valid_message m"
    and "save_validates_unmodified od \<longrightarrow> request_schema_ok R"
    and "startTime a \<le> now"
    and "respond_route od no_faults now caller rid ''reject'' m d = (res, d')"
  shows "http_status res = 200 \<and>
         map_option status (findById (events d') (mySlotId R)) = Some SWAPPABLE \<and>
         (\<forall>e. findById (events d') (mySlotId R) = Some e \<longrightarrow> startTime e \<le> now)"
proof -
  have len: "length (trim (trim m)) \<le> 300"
    using assms(9) by (simp add: valid_message_def trim_trim)
  then have ok: "request_validation od True (resolve REJECTED (trim m) now R)"
    using assms(10) by (simp add: request_validation_def resolve_def request_schema_ok_def)
  have "respond_route od no_faults now caller rid ''reject'' m d =
          method_reply ''Swap request rejected''
            (reject_method od no_faults now rid R (trim m) d)"
    using assms(1-9) by (simp add: respond_route_def)
  then have "http_status res = 200"
    and "events d' = update_doc (theirSlotId R) (set_status SWAPPABLE)
                       (update_doc (mySlotId R) (set_status SWAPPABLE) (events d))"
    using assms(2,12)
      revert_and_resolve_success [where f = "resolve REJECTED (trim m) now" and R = R, OF ok]
    by (simp_all add: reject_method_def method_reply_def)
  then show ?thesis
    using assms(5,11) by (simp add: findById_reverted)
qed

theorem reject_makes_started_slot_swappable_witness:
  "findById (events ex_db_pending) 10 = Some (ex_slot 1 5000000 SWAP_PENDING) \<and>
   startTime (ex_slot 1 5000000 SWAP_PENDING) \<le> 6000000 \<and>
   (case respond_route mongoose no_faults 6000000 2 100 ''reject'' ''no'' ex_db_pending of
      (res, d') \<Rightarrow>
        http_status res = 200 \<and>
        map_option status (findById (events d') 10) = Some SWAPPABLE \<and>
        map_option startTime (findById (events d') 10) = Some 5000000)"
proof -
  obtain res d' where
    out: "respond_route mongoose no_faults 6000000 2 100 ''reject'' ''no'' ex_db_pending = (res, d')"
    by (cases "respond_route mongoose no_faults 6000000 2 100 ''reject'' ''no'' ex_db_pending")
  have h1: "findById (requests ex_db_pending) 100 = Some ex_request"
    by (simp add: ex_defs findById_def)
  have h2: "rstatus ex_request = PENDING" and h3: "\<not> isExpired 6000000 ex_request"
    and h4: "requestedTo ex_request = 2"
    by (simp_all add: ex_defs isExpired_def)
  have h5: "findById (events ex_db_pending) (mySlotId ex_request)
              = Some (ex_slot 1 5000000 SWAP_PENDING)"
    and h6: "findById (events ex_db_pending) (theirSlotId ex_request)
              = Some (ex_slot 2 9000000 SWAP_PENDING)"
    by (simp_all add: ex_defs findById_def)
  have h7: "status (ex_slot 1 5000000 SWAP_PENDING) = SWAP_PENDING"
    and h8: "status (ex_slot 2 9000000 SWAP_PENDING) = SWAP_PENDING"
    and h11: "startTime (ex_slot 1 5000000 SWAP_PENDING) \<le> 6000000"
    by (simp_all add: ex_slot_def)
  have h9: "valid_message ''no''"
    by (simp add: valid_message_def trim_def is_space_def)
  have h10: "save_validates_unmodified mongoose \<longrightarrow> request_schema_ok ex_request"
    by (simp add: request_schema_ok_def ex_defs trim_def is_space_def)
  have ids: "mySlotId ex_request = 10"
    by (simp add: ex_defs)
  have start: "map_option startTime (findById (events d') 10) = Some 5000000"
    using out
    by (auto simp: ex_defs route_defs respond_route_def reject_method_def revert_and_resolve_def)
  show ?thesis
    using reject_makes_started_slot_swappable [OF h1 h2 h3 h4 h5 h6 h7 h8 h9 h10 h11 out]
      h5 h11 start
    by (simp add: out ids)
qed

lemma cancel_makes_started_slot_swappable:
  "case cancel_route mongoose no_faults 6000000 1 100 ex_db_pending of
     (res, d') \<Rightarrow>
       http_status res = 200 \<and>
       map_option status (findById (events d') 10) = Some SWAPPABLE \<and>
       map_option startTime (findById (events d') 10) = Some 5000000"
  by (simp add: ex_defs route_defs cancel_route_def cancel_method_def revert_and_resolve_def)

text \<open>
  The same where the hook of \<open>create\<close> never froze the slots: the owner marked slot 10
  \<open>BUSY\<close> again, the slot started, and the cancel of the request makes it \<open>SWAPPABLE\<close>.
\<close>

lemma cancel_makes_started_busy_slot_swappable:
  "case cancel_route mongoose no_faults 6000000 1 100
          (ex_db_pending\<lparr>events := [(10, ex_slot 1 5000000 BUSY), (20, ex_slot 2 9000000 SWAPPABLE)]\<rparr>) of
     (res, d') \<Rightarrow>
       http_status res = 200 \<and>
       map_option status (findById (events d') 10) = Some SWAPPABLE \<and>
       map_option startTime (findById (events d') 10) = Some 5000000"
  by (simp add: ex_defs route_defs cancel_route_def cancel_method_def revert_and_resolve_def)

text \<open>
  \<^verbatim>\<open>PUT /:id\<close> has no check of its own: it is the schema validator, where the library
  runs it on the unmodified start time, that stops it (lemma
  \<open>put_route_started_slot_validated\<close>); without it the update goes through.
\<close>

lemma put_makes_started_slot_swappable_unvalidated:
  "case put_route (mongoose\<lparr>save_validates_unmodified := False\<rparr>) no_faults 6000000 1 10
          (no_update\<lparr>new_status := Some ''SWAPPABLE''\<rparr>)
          \<lparr>events = [(10, ex_slot 1 5000000 BUSY)], requests = []\<rparr> of
     (res, d') \<Rightarrow>
       http_status res = 200 \<and> map_option status (findById (events d') 10) = Some SWAPPABLE"
  by (simp add: ex_defs route_defs put_route_def checkResourceOwnership_def
      validateEventUpdate_def opt_ok_def checkTimeConflicts_def apply_update_def
      status_of_name_def)

subsection \<open>Expired requests\<close>

text \<open>
  Claim C4, amended. For every stored request \<open>R\<close> that is \<open>PENDING\<close> with \<open>expiresAt\<close>
  passed, every accept and every reject attempt fails and leaves the database as it was,
  so \<open>R\<close> stays \<open>PENDING\<close> and both slots keep their status; when the attempt is the
  recipient's, with a valid action and message, the answer is 400 with the message
  \<open>Request has expired\<close>. (\<open>cancel\<close> has no expiry check: the requester can still cancel
  an expired request.)
\<close>

theorem respond_to_expired_fails:
  assumes "findById (requests d) rid = Some R"
    and "rstatus R = PENDING" and "isExpired now R"
    and "respond_route od flt now caller rid action m d = (res, d')"
  shows "d' = d \<and> http_status res \<in> {400, 403} \<and>
         (caller = requestedTo R \<and> action \<in> {''accept'', ''reject''} \<and> valid_message m
            \<longrightarrow> res = reply 400 ''Request has expired'')"
  using assms by (auto simp: respond_route_def reply_def split: if_splits)

theorem respond_to_expired_fails_witness:
  "findById (requests ex_db_pending) 100 = Some ex_request \<and> rstatus ex_request = PENDING \<and>
   isExpired (ex_now + seven_days + 1) ex_request \<and>
   respond_route mongoose no_faults (ex_now + seven_days + 1) 2 100 ''accept'' [] ex_db_pending
     = (reply 400 ''Request has expired'', ex_db_pending) \<and>
   respond_route mongoose no_faults (ex_now + seven_days + 1) 2 100 ''reject'' [] ex_db_pending
     = (reply 400 ''Request has expired'', ex_db_pending)"
proof -
  have h1: "findById (requests ex_db_pending) 100 = Some ex_request"
    by (simp add: ex_defs findById_def)
  have h2: "rstatus ex_request = PENDING" and h3: "isExpired (ex_now + seven_days + 1) ex_request"
    and to: "requestedTo ex_request = 2"
    by (simp_all add: ex_defs isExpired_def)
  have vm: "valid_message []"
    by (simp add: valid_message_def trim_def)
  have "x = (reply 400 ''Request has expired'', ex_db_pending)"
    if "respond_route mongoose no_faults (ex_now + seven_days + 1) 2 100 action [] ex_db_pending = x"
      and "action \<in> {''accept'', ''reject''}" for x action
    using respond_to_expired_fails [OF h1 h2 h3, of mongoose no_faults 2 action "[]" "fst x" "snd x"]
      that to vm by (cases x) auto
  then show ?thesis
    using h1 h2 h3 by simp
qed

text \<open>
  The claim as written fails on \<open>cancel\<close>: the requester cancels the expired request, the
  answer is 200, the request is \<open>CANCELLED\<close> and the slots are \<open>SWAPPABLE\<close> again.
\<close>

theorem cancel_of_expired_succeeds:
  "rstatus ex_request = PENDING \<and> isExpired (ex_now + seven_days + 1) ex_request \<and>
   (case cancel_route mongoose no_faults (ex_now + seven_days + 1) 1 100 ex_db_pending of
      (res, d') \<Rightarrow>
        http_status res = 200 \<and>
        map_option rstatus (findById (requests d') 100) = Some CANCELLED \<and>
        map_option status (findById (events d') 10) = Some SWAPPABLE \<and>
        map_option status (findById (events d') 20) = Some SWAPPABLE)"
  by (simp add: ex_defs route_defs cancel_route_def cancel_method_def revert_and_resolve_def)

subsection \<open>reject and cancel\<close>

text \<open>
  Claim C9. Let \<open>R\<close> be a stored request with status \<open>PENDING\<close> (and, where the library
  validates unmodified paths, with messages within the schema's 300 characters), and let no
  write fail. Then \<^verbatim>\<open>reject\<close> with a message of at most 300 characters, the recipient's
  reject through the route (for \<open>R\<close> not expired and both slots \<open>SWAP_PENDING\<close>) and the
  requester's cancel through the route each succeed; afterwards every stored slot that
  \<open>R\<close> refers to has status \<open>SWAPPABLE\<close> and is otherwise as before, owner included, every
  other slot is untouched, and \<open>R\<close> is stored as \<open>REJECTED\<close>, respectively \<open>CANCELLED\<close>,
  with \<open>respondedAt\<close> set to the time of the call.
\<close>

theorem reject_and_cancel_revert_slots:
  assumes "findById (requests d) rid = Some R" and "rstatus R = PENDING"
    and "save_validates_unmodified od \<longrightarrow> request_schema_ok R"
  shows "(length (trim m) \<le> 300 \<longrightarrow>
            (case reject_method od no_faults now rid R m d of
               (out, d') \<Rightarrow>
                 out = Inr (R\<lparr>rstatus := REJECTED, responseMessage := trim m,
                              respondedAt := Some now\<rparr>) \<and>
                 (\<forall>k. findById (events d') k =
                    (if k = mySlotId R \<or> k = theirSlotId R
                     then map_option (\<lambda>e. e\<lparr>status := SWAPPABLE\<rparr>) (findById (events d) k)
                     else findById (events d) k)) \<and>
                 findById (requests d') rid =
                   Some (R\<lparr>rstatus := REJECTED, responseMessage := trim m,
                           respondedAt := Some now\<rparr>))) \<and>
         (valid_message m \<and> \<not> isExpired now R \<and>
          map_option status (findById (events d) (mySlotId R)) = Some SWAP_PENDING \<and>
          map_option status (findById (events d) (theirSlotId R)) = Some SWAP_PENDING \<longrightarrow>
            (case respond_route od no_faults now (requestedTo R) rid ''reject'' m d of
               (res, d') \<Rightarrow>
                 http_status res = 200 \<and>
                 (\<forall>k. findById (events d') k =
                    (if k = mySlotId R \<or> k = theirSlotId R
                     then map_option (\<lambda>e. e\<lparr>status := SWAPPABLE\<rparr>) (findById (events d) k)
                     else findById (events d) k)) \<and>
                 findById (requests d') rid =
                   Some (R\<lparr>rstatus := REJECTED, responseMessage := trim m,
                           respondedAt := Some now\<rparr>))) \<and>
         (case cancel_route od no_faults now (requestedBy R) rid d of
            (res, d') \<Rightarrow>
              http_status res = 200 \<and>
              (\<forall>k. findById (events d') k =
                 (if k = mySlotId R \<or> k = theirSlotId R
                  then map_option (\<lambda>e. e\<lparr>status := SWAPPABLE\<rparr>) (findById (events d) k)
                  else findById (events d) k)) \<and>
              findById (requests d') rid = Some (R\<lparr>rstatus := CANCELLED, respondedAt := Some now\<rparr>))"
proof -
  have rej: "request_validation od True (resolve REJECTED m' now R)"
    if "length (trim m') \<le> 300" for m'
    using that assms(3) by (simp add: request_validation_def resolve_def request_schema_ok_def)
  have can: "request_validation od False (cancelled now R)"
    using assms(3) by (simp add: request_validation_def cancelled_def request_schema_ok_def)
  have rejected: "reject_method od no_faults now rid R m' d =
     (Inr (resolve REJECTED m' now R),
      d\<lparr>events := update_doc (theirSlotId R) (set_status SWAPPABLE)
                    (update_doc (mySlotId R) (set_status SWAPPABLE) (events d)),
        requests := update_doc rid (resolve REJECTED m' now) (requests d)\<rparr>)"
    if "length (trim m') \<le> 300" for m'
    using assms(2) revert_and_resolve_success [where f = "resolve REJECTED m' now" and R = R,
        OF rej [OF that]]
    by (simp add: reject_method_def)
  have part1: ?thesis if "True"
  proof (intro conjI impI)
    assume "length (trim m) \<le> 300"
    then show "case reject_method od no_faults now rid R m d of
               (out, d') \<Rightarrow>
                 out = Inr (R\<lparr>rstatus := REJECTED, responseMessage := trim m,
                              respondedAt := Some now\<rparr>) \<and>
                 (\<forall>k. findById (events d') k =
                    (if k = mySlotId R \<or> k = theirSlotId R
                     then map_option (\<lambda>e. e\<lparr>status := SWAPPABLE\<rparr>) (findById (events d) k)
                     else findById (events d) k)) \<and>
                 findById (requests d') rid =
                   Some (R\<lparr>rstatus := REJECTED, responseMessage := trim m,
                           respondedAt := Some now\<rparr>)"
      using assms(1)
      by (simp add: rejected findById_update_doc resolve_def set_status_def [abs_def] option.map_comp comp_def)
  next
    assume a: "valid_message m \<and> \<not> isExpired now R \<and>
          map_option status (findById (events d) (mySlotId R)) = Some SWAP_PENDING \<and>
          map_option status (findById (events d) (theirSlotId R)) = Some SWAP_PENDING"
    then have len: "length (trim (trim m)) \<le> 300"
      by (simp add: valid_message_def trim_trim)
    have "respond_route od no_faults now (requestedTo R) rid ''reject'' m d =
            method_reply ''Swap request rejected'' (reject_method od no_faults now rid R (trim m) d)"
      using a assms(1,2) by (auto simp: respond_route_def)
    then show "case respond_route od no_faults now (requestedTo R) rid ''reject'' m d of
               (res, d') \<Rightarrow>
                 http_status res = 200 \<and>
                 (\<forall>k. findById (events d') k =
                    (if k = mySlotId R \<or> k = theirSlotId R
                     then map_option (\<lambda>e. e\<lparr>status := SWAPPABLE\<rparr>) (findById (events d) k)
                     else findById (events d) k)) \<and>
                 findById (requests d') rid =
                   Some (R\<lparr>rstatus := REJECTED, responseMessage := trim m,
                           respondedAt := Some now\<rparr>)"
      using assms(1)
      by (simp add: rejected [OF len] method_reply_def findById_update_doc resolve_def trim_trim
          set_status_def [abs_def] option.map_comp comp_def)
  next
    have "cancel_route od no_faults now (requestedBy R) rid d =
            method_reply ''Swap request cancelled successfully''
              (cancel_method od no_faults now rid R d)"
      using assms(1,2) by (simp add: cancel_route_def)
    then show "case cancel_route od no_faults now (requestedBy R) rid d of
            (res, d') \<Rightarrow>
              http_status res = 200 \<and>
              (\<forall>k. findById (events d') k =
                 (if k = mySlotId R \<or> k = theirSlotId R
                  then map_option (\<lambda>e. e\<lparr>status := SWAPPABLE\<rparr>) (findById (events d) k)
                  else findById (events d) k)) \<and>
              findById (requests d') rid = Some (R\<lparr>rstatus := CANCELLED, respondedAt := Some now\<rparr>)"
      using assms(1,2) revert_and_resolve_success [where f = "cancelled now" and R = R, OF can]
      by (simp add: cancel_method_def method_reply_def findById_update_doc cancelled_def
          set_status_def [abs_def] option.map_comp comp_def)
  qed
  then show ?thesis by simp
qed

theorem reject_and_cancel_revert_slots_witness:
  "findById (requests ex_db_pending) 100 = Some ex_request \<and> rstatus ex_request = PENDING \<and>
   request_schema_ok ex_request \<and> valid_message ''no'' \<and> \<not> isExpired 2000000 ex_request \<and>
   requestedTo ex_request = 2 \<and> requestedBy ex_request = 1 \<and>
   (case respond_route mongoose no_faults 2000000 2 100 ''reject'' ''no'' ex_db_pending of
      (res, d') \<Rightarrow>
        http_status res = 200 \<and>
        findById (events d') 10 = Some (ex_slot 1 5000000 SWAPPABLE) \<and>
        findById (events d') 20 = Some (ex_slot 2 9000000 SWAPPABLE) \<and>
        map_option rstatus (findById (requests d') 100) = Some REJECTED \<and>
        map_option respondedAt (findById (requests d') 100) = Some (Some 2000000)) \<and>
   (case cancel_route mongoose no_faults 2000000 1 100 ex_db_pending of
      (res, d') \<Rightarrow>
        http_status res = 200 \<and>
        findById (events d') 10 = Some (ex_slot 1 5000000 SWAPPABLE) \<and>
        findById (events d') 20 = Some (ex_slot 2 9000000 SWAPPABLE) \<and>
        map_option rstatus (findById (requests d') 100) = Some CANCELLED \<and>
        map_option respondedAt (findById (requests d') 100) = Some (Some 2000000))"
proof -
  have h1: "findById (requests ex_db_pending) 100 = Some ex_request"
    by (simp add: ex_defs findById_def)
  have h2: "rstatus ex_request = PENDING"
    by (simp add: ex_defs)
  have ok: "request_schema_ok ex_request"
    by (simp add: request_schema_ok_def ex_defs trim_def is_space_def)
  then have h3: "save_validates_unmodified mongoose \<longrightarrow> request_schema_ok ex_request"
    by simp
  have vm: "valid_message ''no''" and tr: "trim ''no'' = ''no''"
    by (simp_all add: valid_message_def trim_def is_space_def)
  have facts: "\<not> isExpired 2000000 ex_request" "requestedTo ex_request = 2"
    "requestedBy ex_request = 1" "mySlotId ex_request = 10" "theirSlotId ex_request = 20"
    by (simp_all add: ex_defs isExpired_def)
  have slots: "findById (events ex_db_pending) 10 = Some (ex_slot 1 5000000 SWAP_PENDING)"
    "findById (events ex_db_pending) 20 = Some (ex_slot 2 9000000 SWAP_PENDING)"
    by (simp_all add: ex_defs findById_def)
  show ?thesis
    using reject_and_cancel_revert_slots [OF h1 h2 h3, of "''no''" 2000000] h1 h2 ok vm
    by (simp add: facts slots tr ex_slot_def split: prod.splits)
qed

subsection \<open>Listing requests\<close>

lemma set_page_of: "set (page_of page limit rs) \<subseteq> set rs"
proof -
  have "set (take n (drop k (sort_key f rs))) \<subseteq> set rs" for n k and f :: "oid \<times> swap_request \<Rightarrow> int"
    using set_take_subset [of n "drop k (sort_key f rs)"] set_drop_subset [of k "sort_key f rs"]
    by auto
  then show ?thesis
    by (simp add: page_of_def Let_def)
qed

lemma status_name_CANCELLED: "(status_name s = ''CANCELLED'') = (s = CANCELLED)"
  by (cases s) (simp_all add: status_name_def)

text \<open>
  Claim C10. The incoming list answers the status filter \<open>CANCELLED\<close> with the validation
  error, and answers 200 to a status filter only when it is \<open>PENDING\<close>, \<open>ACCEPTED\<close> or
  \<open>REJECTED\<close>; the outgoing list accepts \<open>CANCELLED\<close> and returns the caller's cancelled
  requests; and whatever the filter, no request that the incoming list returns is
  \<open>CANCELLED\<close>.
\<close>

theorem incoming_rejects_cancelled_filter:
  "incoming_route now caller (Some ''CANCELLED'') page limit d = reply 400 ''Validation failed'' \<and>
   (http_status (incoming_route now caller (Some s) page limit d) = 200
      \<longrightarrow> s \<in> {''PENDING'', ''ACCEPTED'', ''REJECTED''}) \<and>
   (valid_paging page limit \<longrightarrow>
      outgoing_route caller (Some ''CANCELLED'') page limit d =
        \<lparr>http_status = 200, res_message = [],
         res_data = RequestList (page_of page limit
           (filter (\<lambda>(k, r). requestedBy r = caller \<and> rstatus r = CANCELLED) (requests d)))\<rparr>) \<and>
   (\<forall>rs. res_data (incoming_route now caller st page limit d) = RequestList rs \<longrightarrow>
      (\<forall>(k, r) \<in> set rs. requestedTo r = caller \<and> rstatus r \<noteq> CANCELLED))"
proof (intro conjI allI impI)
  show "incoming_route now caller (Some ''CANCELLED'') page limit d = reply 400 ''Validation failed''"
    by (simp add: incoming_route_def opt_ok_def)
next
  assume "http_status (incoming_route now caller (Some s) page limit d) = 200"
  then show "s \<in> {''PENDING'', ''ACCEPTED'', ''REJECTED''}"
    by (auto simp: incoming_route_def opt_ok_def reply_def split: if_splits)
next
  assume "valid_paging page limit"
  then show "outgoing_route caller (Some ''CANCELLED'') page limit d =
        \<lparr>http_status = 200, res_message = [],
         res_data = RequestList (page_of page limit
           (filter (\<lambda>(k, r). requestedBy r = caller \<and> rstatus r = CANCELLED) (requests d)))\<rparr>"
    by (simp add: outgoing_route_def opt_ok_def status_name_CANCELLED)
next
  fix rs
  assume data: "res_data (incoming_route now caller st page limit d) = RequestList rs"
  let ?keep = "\<lambda>(k, r). requestedTo r = caller \<and>
                 (case st of Some s \<Rightarrow> status_name (rstatus r) = s
                  | None \<Rightarrow> rstatus r = PENDING \<and> now < expiresAt r)"
  have valid: "opt_ok (\<lambda>s. s \<in> set [''PENDING'', ''ACCEPTED'', ''REJECTED'']) st"
    and rs: "rs = page_of page limit (filter ?keep (requests d))"
    using data by (auto simp: incoming_route_def reply_def split: if_splits)
  have "requestedTo r = caller \<and> rstatus r \<noteq> CANCELLED" if "(k, r) \<in> set rs" for k r
  proof -
    have "(k, r) \<in> set (filter ?keep (requests d))"
      using that set_page_of rs by blast
    then have "requestedTo r = caller" and
      "case st of Some s \<Rightarrow> status_name (rstatus r) = s | None \<Rightarrow> rstatus r = PENDING"
      by (auto split: option.splits)
    then show ?thesis
      using valid by (cases st) (auto simp: opt_ok_def status_name_def)
  qed
  then show "\<forall>(k, r) \<in> set rs. requestedTo r = caller \<and> rstatus r \<noteq> CANCELLED"
    by auto
qed

text \<open>
  User 1 cancelled the request to user 2: user 2 cannot list it, whatever the filter, and
  user 1 can.
\<close>

theorem incoming_rejects_cancelled_filter_witness:
  "map_option rstatus (findById (requests ex_db_cancelled) 100) = Some CANCELLED \<and>
   map_option requestedTo (findById (requests ex_db_cancelled) 100) = Some 2 \<and>
   incoming_route ex_now 2 (Some ''CANCELLED'') None None ex_db_cancelled
     = reply 400 ''Validation failed'' \<and>
   res_data (incoming_route ex_now 2 None None None ex_db_cancelled) = RequestList [] \<and>
   res_data (incoming_route ex_now 2 (Some ''REJECTED'') None None ex_db_cancelled) = RequestList [] \<and>
   valid_paging None None \<and>
   outgoing_route 1 (Some ''CANCELLED'') None None ex_db_cancelled =
     \<lparr>http_status = 200, res_message = [],
      res_data = RequestList [(100, cancelled 2000000 ex_request)]\<rparr>"
proof -
  have vp: "valid_paging None None"
    by (simp add: valid_paging_def opt_ok_def)
  have stored: "map_option rstatus (findById (requests ex_db_cancelled) 100) = Some CANCELLED"
    "map_option requestedTo (findById (requests ex_db_cancelled) 100) = Some 2"
    by (simp_all add: ex_db_cancelled_def ex_defs findById_def cancelled_def)
  have lists: "res_data (incoming_route ex_now 2 None None None ex_db_cancelled) = RequestList []"
    "res_data (incoming_route ex_now 2 (Some ''REJECTED'') None None ex_db_cancelled) = RequestList []"
    by (simp_all add: incoming_route_def opt_ok_def valid_paging_def page_of_def
        ex_db_cancelled_def ex_defs cancelled_def status_name_def)
  have page: "page_of None None
      (filter (\<lambda>(k, r). requestedBy r = Suc 0 \<and> rstatus r = CANCELLED) (requests ex_db_cancelled))
      = [(100, cancelled 2000000 ex_request)]"
    by (simp add: page_of_def ex_db_cancelled_def ex_defs cancelled_def)
  show ?thesis
    using incoming_rejects_cancelled_filter [where now = ex_now and caller = 2 and page = None
        and limit = None and d = ex_db_cancelled and st = None and s = "''CANCELLED''"]
      incoming_rejects_cancelled_filter [where now = ex_now and caller = 1 and page = None
        and limit = None and d = ex_db_cancelled and st = None and s = "''CANCELLED''"]
      vp stored lists
    by (simp add: page)
qed

subsection \<open>Frozen slots\<close>

lemma post_event_route_keeps:
  assumes "findById (events d) i = Some e"
    and "post_event_route flt now newId caller inp d = (res, d')"
  shows "findById (events d') i = Some e"
  using assms by (auto simp: post_event_route_def reply_def findById_append split: if_splits)

lemma put_route_pending:
  assumes "findById (events d) i = Some e" and "status e = SWAP_PENDING"
    and "put_route od flt now caller i u d = (res, d')"
  shows "http_status res \<in> {400, 403} \<and> d' = d"
  using assms
  by (cases "userId e = caller"; cases "validateEventUpdate now u")
     (auto simp: put_route_def checkResourceOwnership_def reply_def Let_def)

lemma put_route_other:
  assumes "j \<noteq> i" and "put_route od flt now caller j u d = (res, d')"
  shows "findById (events d') i = findById (events d) i"
proof -
  have "d' = d \<or> events d' = update_doc j (apply_update u) (events d)"
    using assms(2)
    by (auto simp: put_route_def Let_def split: sum.splits if_splits)
  then show ?thesis
    using assms(1) by (auto simp: findById_update_doc)
qed

lemma delete_route_pending:
  assumes "findById (events d) i = Some e" and "status e = SWAP_PENDING"
    and "delete_route flt caller i d = (res, d')"
  shows "http_status res \<in> {400, 403} \<and> d' = d"
  using assms
  by (cases "userId e = caller") (auto simp: delete_route_def checkResourceOwnership_def reply_def)

lemma delete_route_other:
  assumes "j \<noteq> i" and "delete_route flt caller j d = (res, d')"
  shows "findById (events d') i = findById (events d) i"
proof -
  have "d' = d \<or> events d' = delete_doc j (events d)"
    using assms(2) by (auto simp: delete_route_def split: sum.splits if_splits)
  then show ?thesis
    using assms(1) by (auto simp: findById_delete_doc)
qed

lemma patch_route_pending:
  assumes "findById (events d) i = Some e" and "status e = SWAP_PENDING"
    and "patch_route od flt now caller i s d = (res, d')"
  shows "http_status res \<in> {400, 403} \<and> d' = d"
  using assms
  by (cases "userId e = caller")
     (auto simp: patch_route_def checkResourceOwnership_def reply_def split: option.splits)

lemma patch_route_other:
  assumes "j \<noteq> i" and "patch_route od flt now caller j s d = (res, d')"
  shows "findById (events d') i = findById (events d) i"
proof -
  have "d' = d \<or> (\<exists>st. events d' = update_doc j (set_status st) (events d))"
    using assms(2) by (auto simp: patch_route_def split: sum.splits option.splits if_splits)
  then show ?thesis
    using assms(1) by (auto simp: findById_update_doc)
qed

lemma update_both_statuses_other:
  "k \<noteq> a \<Longrightarrow> k \<noteq> b \<Longrightarrow> findById (snd (update_both_statuses flt s a b ev)) k = findById ev k"
  by (simp add: update_both_statuses_def Let_def findById_update_doc)

lemma create_route_keeps_pending_slot:
  assumes "findById (events d) i = Some e" and "status e = SWAP_PENDING"
    and "create_route od flt now newId requester my their m d = (res, d')"
  shows "findById (events d') i = Some e"
proof (cases "http_status res = 201")
  case True
  obtain theirSlot :: event where
    ev: "events d' = post_save flt (post_save_sees_isNew od)
           (new_request now my their requester (userId theirSlot) m) (events d)"
    using create_route_created [OF assms(3) True] by blast
  have "map_option status (findById (events d) my) = Some SWAPPABLE"
    "map_option status (findById (events d) their) = Some SWAPPABLE"
    using assms(3) True
    by (auto simp: create_route_def reply_def split: option.splits if_splits)
  then have "i \<noteq> my" "i \<noteq> their"
    using assms(1,2) by auto
  then show ?thesis
    using assms(1) by (simp add: ev post_save_def new_request_def update_both_statuses_other)
next
  case False
  then show ?thesis
    using create_route_failure_keeps_db [OF assms(3)] assms(1) by simp
qed

lemma accept_method_other:
  assumes "accept_method od flt now rid R m d = (out, d')"
    and "k \<noteq> mySlotId R" and "k \<noteq> theirSlotId R"
  shows "findById (events d') k = findById (events d) k"
  using assms
  by (auto simp: accept_method_def findById_update_doc split: if_splits option.splits)

lemma revert_and_resolve_other:
  assumes "revert_and_resolve od flt rid R assigned f d = (out, d')"
    and "k \<noteq> mySlotId R" and "k \<noteq> theirSlotId R"
  shows "findById (events d') k = findById (events d) k"
proof -
  have "events d' = snd (update_both_statuses flt SWAPPABLE (mySlotId R) (theirSlotId R) (events d))"
    using assms(1) by (auto simp: revert_and_resolve_def split: prod.splits if_splits)
  then show ?thesis
    using assms(2,3) by (simp add: update_both_statuses_other)
qed

lemma respond_route_keeps_other_slots:
  assumes "\<not> refers_to d rid i"
    and "respond_route od flt now caller rid action m d = (res, d')"
  shows "findById (events d') i = findById (events d) i"
proof (cases "d' = d")
  case True
  then show ?thesis by simp
next
  case False
  then obtain R out where R: "findById (requests d) rid = Some R" "rstatus R = PENDING"
    and call: "accept_method od flt now rid R (trim m) d = (out, d')
               \<or> reject_method od flt now rid R (trim m) d = (out, d')"
    using assms(2)
    by (auto simp: respond_route_def method_reply_def
        split: if_splits option.splits sum.splits prod.splits)
  have other: "i \<noteq> mySlotId R" "i \<noteq> theirSlotId R"
    using assms(1) R by (auto simp: refers_to_def)
  from call show ?thesis
  proof
    assume "accept_method od flt now rid R (trim m) d = (out, d')"
    then show ?thesis
      using other by (rule accept_method_other)
  next
    assume "reject_method od flt now rid R (trim m) d = (out, d')"
    then have "revert_and_resolve od flt rid R True (resolve REJECTED (trim m) now) d = (out, d')"
      using R(2) by (simp add: reject_method_def)
    then show ?thesis
      using other by (rule revert_and_resolve_other)
  qed
qed

lemma cancel_route_keeps_other_slots:
  assumes "\<not> refers_to d rid i"
    and "cancel_route od flt now caller rid d = (res, d')"
  shows "findById (events d') i = findById (events d) i"
proof (cases "d' = d")
  case True
  then show ?thesis by simp
next
  case False
  then obtain R out where R: "findById (requests d) rid = Some R" "rstatus R = PENDING"
    and call: "cancel_method od flt now rid R d = (out, d')"
    using assms(2)
    by (auto simp: cancel_route_def method_reply_def
        split: if_splits option.splits sum.splits prod.splits)
  have other: "i \<noteq> mySlotId R" "i \<noteq> theirSlotId R"
    using assms(1) R by (auto simp: refers_to_def)
  have "revert_and_resolve od flt rid R False (cancelled now) d = (out, d')"
    using call R(2) by (simp add: cancel_method_def)
  then show ?thesis
    using other by (rule revert_and_resolve_other)
qed

text \<open>
  Claim C8. For every stored slot with status \<open>SWAP_PENDING\<close>, the owner-facing update
  (\<^verbatim>\<open>PUT\<close>), delete and status change (\<^verbatim>\<open>PATCH\<close>) of that slot each answer with an error
  (400, or 403 for a caller who is not the owner) and leave the database unchanged; and
  whichever call changes or removes the stored slot, that call is an accept, reject or
  cancel of a pending request that refers to the slot.
\<close>

theorem swap_pending_slot_is_frozen:
  assumes "findById (events d) i = Some e" and "status e = SWAP_PENDING"
  shows "(case put_route od flt now caller i u d of
            (res, d') \<Rightarrow> http_status res \<in> {400, 403} \<and> d' = d) \<and>
         (case delete_route flt caller i d of
            (res, d') \<Rightarrow> http_status res \<in> {400, 403} \<and> d' = d) \<and>
         (case patch_route od flt now caller i s d of
            (res, d') \<Rightarrow> http_status res \<in> {400, 403} \<and> d' = d) \<and>
         (\<forall>c res d'. perform od flt now c d = (res, d') \<longrightarrow>
            findById (events d') i \<noteq> Some e \<longrightarrow> resolves d i c)"
proof -
  have owner_ops:
    "case put_route od flt now caller i u d of
       (res, d') \<Rightarrow> http_status res \<in> {400, 403} \<and> d' = d"
    "case delete_route flt caller i d of
       (res, d') \<Rightarrow> http_status res \<in> {400, 403} \<and> d' = d"
    "case patch_route od flt now caller i s d of
       (res, d') \<Rightarrow> http_status res \<in> {400, 403} \<and> d' = d"
    using put_route_pending [OF assms] delete_route_pending [OF assms]
      patch_route_pending [OF assms]
    by (auto split: prod.splits)
  have only: "resolves d i c"
    if run: "perform od flt now c d = (res, d')" and changed: "findById (events d') i \<noteq> Some e"
    for c res d'
  proof (cases c)
    case (CreateEvent newId caller' inp)
    then show ?thesis
      using run changed post_event_route_keeps [OF assms(1)] by auto
  next
    case (UpdateEvent caller' j u')
    then show ?thesis
      using run changed put_route_pending [OF assms] put_route_other assms(1)
      by (cases "j = i") fastforce+
  next
    case (DeleteEvent caller' j)
    then show ?thesis
      using run changed delete_route_pending [OF assms] delete_route_other assms(1)
      by (cases "j = i") fastforce+
  next
    case (ChangeStatus caller' j s')
    then show ?thesis
      using run changed patch_route_pending [OF assms] patch_route_other assms(1)
      by (cases "j = i") fastforce+
  next
    case (CreateSwap newId caller' my their m)
    then show ?thesis
      using run changed create_route_keeps_pending_slot [OF assms] by auto
  next
    case (RespondSwap caller' rid action m)
    then show ?thesis
      using run changed respond_route_keeps_other_slots assms(1) by fastforce
  next
    case (CancelSwap caller' rid)
    then show ?thesis
      using run changed cancel_route_keeps_other_slots assms(1) by fastforce
  qed
  show ?thesis
    using owner_ops only by blast
qed

text \<open>
  Slot 10 is frozen by request 100: its owner can neither update, delete nor re-mark it,
  and the requester's cancel, which does change it, is a call on that request.
\<close>

theorem swap_pending_slot_is_frozen_witness:
  "findById (events ex_db_pending) 10 = Some (ex_slot 1 5000000 SWAP_PENDING) \<and>
   status (ex_slot 1 5000000 SWAP_PENDING) = SWAP_PENDING \<and>
   put_route mongoose no_faults ex_now 1 10 (no_update\<lparr>new_status := Some ''BUSY''\<rparr>) ex_db_pending
     = (reply 400 ''Cannot update event while swap is pending'', ex_db_pending) \<and>
   delete_route no_faults 1 10 ex_db_pending
     = (reply 400 ''Cannot delete event while swap is pending'', ex_db_pending) \<and>
   patch_route mongoose no_faults ex_now 1 10 ''BUSY'' ex_db_pending
     = (reply 400 ''Cannot change status while swap is pending'', ex_db_pending) \<and>
   findById (events (snd (perform mongoose no_faults ex_now (CancelSwap 1 100) ex_db_pending))) 10
     = Some (ex_slot 1 5000000 SWAPPABLE) \<and>
   resolves ex_db_pending 10 (CancelSwap 1 100)"
proof -
  let ?e = "ex_slot 1 5000000 SWAP_PENDING"
  have h1: "findById (events ex_db_pending) 10 = Some ?e"
    by (simp add: ex_defs findById_def)
  have h2: "status ?e = SWAP_PENDING"
    by (simp add: ex_slot_def)
  note frozen = swap_pending_slot_is_frozen [OF h1 h2, where od = mongoose and flt = no_faults
      and now = ex_now and caller = 1 and u = "no_update\<lparr>new_status := Some ''BUSY''\<rparr>"
      and s = "''BUSY''"]
  have put: "put_route mongoose no_faults ex_now 1 10 (no_update\<lparr>new_status := Some ''BUSY''\<rparr>)
      ex_db_pending = (reply 400 ''Cannot update event while swap is pending'', ex_db_pending)"
    by (simp add: put_route_def checkResourceOwnership_def h1 ex_slot_def validateEventUpdate_def
        opt_ok_def no_update_def)
  have del: "delete_route no_faults 1 10 ex_db_pending
      = (reply 400 ''Cannot delete event while swap is pending'', ex_db_pending)"
    by (simp add: delete_route_def checkResourceOwnership_def h1 ex_slot_def)
  have patch: "patch_route mongoose no_faults ex_now 1 10 ''BUSY'' ex_db_pending
      = (reply 400 ''Cannot change status while swap is pending'', ex_db_pending)"
    by (simp add: patch_route_def checkResourceOwnership_def h1 ex_slot_def status_of_name_def)
  have cancel: "findById (events (snd (perform mongoose no_faults ex_now (CancelSwap 1 100)
      ex_db_pending))) 10 = Some (ex_slot 1 5000000 SWAPPABLE)"
    by (simp add: ex_defs route_defs cancel_route_def cancel_method_def revert_and_resolve_def)
  then have "findById (events (snd (perform mongoose no_faults ex_now (CancelSwap 1 100)
      ex_db_pending))) 10 \<noteq> Some ?e"
    by (simp add: ex_slot_def)
  then have "resolves ex_db_pending 10 (CancelSwap 1 100)"
    using frozen surjective_pairing by blast
  then show ?thesis
    using h1 h2 put del patch cancel by simp
qed

subsection \<open>One pending request for a pair of slots\<close>

lemma existingRequest_append:
  "existingRequest (rs @ [(k, r)]) a b = (existingRequest rs a b \<or> pending_between a b r)"
  by (simp add: existingRequest_def)

lemma existingRequest_iff:
  "existingRequest rs a b = (\<exists>k r. (k, r) \<in> set rs \<and> pending_between a b r)"
  by (auto simp: existingRequest_def list_ex_iff)

lemma pending_pairs_unique_append:
  "pending_pairs_unique (rs @ [(k, r)]) =
     (pending_pairs_unique rs \<and>
      (rstatus r = PENDING \<longrightarrow> \<not> existingRequest rs (mySlotId r) (theirSlotId r)))"
proof (induction rs)
  case Nil
  then show ?case by (simp add: existingRequest_def)
next
  case (Cons x rs)
  obtain k' r' where x: "x = (k', r')" by (cases x)
  have sym: "(rstatus r' = PENDING \<longrightarrow> \<not> pending_between (mySlotId r') (theirSlotId r') r) =
             (rstatus r = PENDING \<longrightarrow> \<not> pending_between (mySlotId r) (theirSlotId r) r')"
    by (auto simp: pending_between_def)
  have here: "existingRequest ((k', r') # rs) a b = (pending_between a b r' \<or> existingRequest rs a b)"
    for a b
    by (simp add: existingRequest_def)
  show ?case
    using Cons.IH sym by (auto simp: x existingRequest_append here)
qed

lemma existingRequest_update_doc:
  assumes "\<And>r. rstatus (f r) \<noteq> PENDING"
    and "existingRequest (update_doc rid f rs) a b"
  shows "existingRequest rs a b"
proof -
  obtain k r where "(k, r) \<in> set (update_doc rid f rs)" and p: "pending_between a b r"
    using assms(2) by (auto simp: existingRequest_iff)
  then obtain r0 where "(k, r0) \<in> set rs" and "r = (if k = rid then f r0 else r0)"
    by (auto simp: update_doc_def split: if_splits)
  then show ?thesis
    using p assms(1) by (auto simp: existingRequest_iff pending_between_def split: if_splits)
qed

lemma pending_pairs_unique_update_doc:
  assumes "\<And>r. rstatus (f r) \<noteq> PENDING"
    and "pending_pairs_unique rs"
  shows "pending_pairs_unique (update_doc rid f rs)"
  using assms(2)
proof (induction rs)
  case Nil
  then show ?case by (simp add: update_doc_def)
next
  case (Cons x rs)
  obtain k r where x: "x = (k, r)" by (cases x)
  have tail: "pending_pairs_unique (update_doc rid f rs)"
    using Cons by (simp add: x)
  have step: "update_doc rid f ((k, r) # rs) = (k, if k = rid then f r else r) # update_doc rid f rs"
    by (simp add: update_doc_def)
  show ?case
  proof (cases "k = rid")
    case True
    show ?thesis
      unfolding x step using tail assms(1) True by simp
  next
    case False
    have "\<not> existingRequest (update_doc rid f rs) (mySlotId r) (theirSlotId r)"
      if "rstatus r = PENDING"
      using that Cons.prems existingRequest_update_doc [OF assms(1)] by (auto simp: x)
    then show ?thesis
      unfolding x step using tail False by simp
  qed
qed

lemma create_route_requests:
  assumes "create_route od flt now newId requester my their m d = (res, d')"
  shows "requests d' = requests d \<or>
         (\<exists>r. requests d' = requests d @ [(newId, r)] \<and>
              \<not> existingRequest (requests d) (mySlotId r) (theirSlotId r))"
proof (cases "http_status res = 201")
  case True
  then obtain theirSlot :: event where
    rs: "requests d' = requests d @ [(newId, new_request now my their requester (userId theirSlot) m)]"
    using create_route_created [OF assms] by blast
  have "\<not> existingRequest (requests d) my their"
    using assms True
    by (auto simp: create_route_def reply_def split: option.splits if_splits)
  then show ?thesis
    using rs by (auto simp: new_request_def)
next
  case False
  then show ?thesis
    using create_route_failure_keeps_db [OF assms] by simp
qed

lemma respond_route_requests:
  assumes "respond_route od flt now caller rid action m d = (res, d')"
  shows "requests d' = requests d \<or>
         (\<exists>s. s \<noteq> PENDING \<and> requests d' = update_doc rid (resolve s (trim m) now) (requests d))"
  using assms
  by (auto simp: respond_route_def method_reply_def accept_method_def reject_method_def
      revert_and_resolve_def
      split: if_splits option.splits sum.splits prod.splits)

lemma cancel_route_requests:
  assumes "cancel_route od flt now caller rid d = (res, d')"
  shows "requests d' = requests d \<or> requests d' = update_doc rid (cancelled now) (requests d)"
  using assms
  by (auto simp: cancel_route_def method_reply_def cancel_method_def revert_and_resolve_def
      split: if_splits option.splits sum.splits prod.splits)

lemma event_routes_keep_requests:
  "post_event_route flt now newId caller inp d = (res, d') \<Longrightarrow> requests d' = requests d"
  "put_route od flt now caller i u d = (res, d') \<Longrightarrow> requests d' = requests d"
  "delete_route flt caller i d = (res, d') \<Longrightarrow> requests d' = requests d"
  "patch_route od flt now caller i s d = (res, d') \<Longrightarrow> requests d' = requests d"
  by (auto simp: post_event_route_def put_route_def delete_route_def patch_route_def Let_def
      split: if_splits option.splits sum.splits)

lemma perform_keeps_pending_pairs_unique:
  assumes "pending_pairs_unique (requests d)" and "perform od flt now c d = (res, d')"
  shows "pending_pairs_unique (requests d')"
proof (cases c)
  case (CreateSwap newId caller my their m)
  then show ?thesis
    using assms create_route_requests [of od flt now newId caller my their m d res d']
    by (auto simp: pending_pairs_unique_append)
next
  case (RespondSwap caller rid action m)
  then show ?thesis
    using assms respond_route_requests [of od flt now caller rid action m d res d']
    by (auto simp: resolve_def intro!: pending_pairs_unique_update_doc)
next
  case (CancelSwap caller rid)
  then show ?thesis
    using assms cancel_route_requests [of od flt now caller rid d res d']
    by (auto simp: cancelled_def intro!: pending_pairs_unique_update_doc)
qed (use assms event_routes_keep_requests in auto)

text \<open>
  What the route and the index do in calls made one after another: \<open>create\<close> is refused,
  leaving the database unchanged, when a \<open>PENDING\<close> request is stored for the pair in either
  direction (with 400 when both slots exist and \<open>mySlot\<close> is the requester's, with 404 or
  403 otherwise); the insert is refused when a \<open>PENDING\<close> request is stored for the same
  \<open>mySlotId\<close> and \<open>theirSlotId\<close>; and every call that writes keeps at most one
  \<open>PENDING\<close> request for a pair of slots.
\<close>

lemma create_pre_check_and_index:
  "(valid_message m \<longrightarrow>
      (\<exists>k r. (k, r) \<in> set (requests d) \<and> rstatus r = PENDING \<and>
             (mySlotId r = my \<and> theirSlotId r = their \<or> mySlotId r = their \<and> theirSlotId r = my))
      \<longrightarrow> (case create_route od flt now newId requester my their m d of
             (res, d') \<Rightarrow>
               d' = d \<and> http_status res \<in> {400, 403, 404} \<and>
               (\<forall>a b. findById (events d) my = Some a \<longrightarrow> findById (events d) their = Some b
                   \<longrightarrow> userId a = requester \<longrightarrow> http_status res = 400))) \<and>
   (rstatus r = PENDING \<longrightarrow>
      (\<exists>k r'. (k, r') \<in> set reqs \<and> rstatus r' = PENDING \<and>
              mySlotId r' = mySlotId r \<and> theirSlotId r' = theirSlotId r)
      \<longrightarrow> insert_request newId r reqs = Inl ''E11000 duplicate key error'') \<and>
   (pending_pairs_unique (requests d) \<longrightarrow>
      (\<forall>c. pending_pairs_unique (requests (snd (perform od flt now c d)))))"
proof (intro conjI impI allI)
  assume vm: "valid_message m"
    and ex: "\<exists>k r. (k, r) \<in> set (requests d) \<and> rstatus r = PENDING \<and>
             (mySlotId r = my \<and> theirSlotId r = their \<or> mySlotId r = their \<and> theirSlotId r = my)"
  then have dup: "existingRequest (requests d) my their"
    by (auto simp: existingRequest_iff pending_between_def)
  obtain res d' where out: "create_route od flt now newId requester my their m d = (res, d')"
    by (cases "create_route od flt now newId requester my their m d")
  have "http_status res \<in> {400, 403, 404}"
    using out vm dup
    by (auto simp: create_route_def reply_def split: option.splits if_splits)
  moreover from this have "d' = d"
    using create_route_failure_keeps_db [OF out] by auto
  moreover have "http_status res = 400"
    if "findById (events d) my = Some a" "findById (events d) their = Some b"
       "userId a = requester" for a b
    using out vm dup that
    by (auto simp: create_route_def reply_def split: if_splits)
  ultimately show "case create_route od flt now newId requester my their m d of
             (res, d') \<Rightarrow>
               d' = d \<and> http_status res \<in> {400, 403, 404} \<and>
               (\<forall>a b. findById (events d) my = Some a \<longrightarrow> findById (events d) their = Some b
                   \<longrightarrow> userId a = requester \<longrightarrow> http_status res = 400)"
    by (auto simp: out)
next
  assume "rstatus r = PENDING"
    and "\<exists>k r'. (k, r') \<in> set reqs \<and> rstatus r' = PENDING \<and>
              mySlotId r' = mySlotId r \<and> theirSlotId r' = theirSlotId r"
  then have "violates_pending_index reqs r"
    by (auto simp: violates_pending_index_def list_ex_iff)
  then show "insert_request newId r reqs = Inl ''E11000 duplicate key error''"
    by (simp add: insert_request_def)
next
  fix c
  assume "pending_pairs_unique (requests d)"
  then show "pending_pairs_unique (requests (snd (perform od flt now c d)))"
    using perform_keeps_pending_pairs_unique [OF _ surjective_pairing] by blast
qed

text \<open>
  The store itself: with the request for slots (10, 20) pending, the insert of a second
  pending request for (20, 10) passes the unique index, and then two pending requests share
  the pair.
\<close>

lemma index_admits_reversed_pair:
  "rstatus ex_request = PENDING \<and> mySlotId ex_request = 10 \<and> theirSlotId ex_request = 20 \<and>
   insert_request 101 (new_request ex_now 20 10 2 1 ''hi'') [(100, ex_request)]
     = Inr [(100, ex_request), (101, new_request ex_now 20 10 2 1 ''hi'')] \<and>
   \<not> pending_pairs_unique [(100, ex_request), (101, new_request ex_now 20 10 2 1 ''hi'')]"
  by (simp add: ex_defs insert_request_def findById_def violates_pending_index_def
      existingRequest_def pending_between_def)

text \<open>
  Claim C5. The route's pre-check looks for a \<open>PENDING\<close> request over the pair in both
  directions (lemma \<open>create_pre_check_and_index\<close>), and the unique index is there to refuse
  the duplicate that gets past it. But the index compares \<open>mySlotId\<close> and \<open>theirSlotId\<close> in
  order: when a request for \<open>(B, A)\<close> reaches \<^verbatim>\<open>swapRequest.save()\<close> while a \<open>PENDING\<close>
  request for \<open>(A, B)\<close> is stored and the two slots are still \<open>SWAPPABLE\<close>, as they are
  for the loser of two racing creates, the save succeeds and the store holds two \<open>PENDING\<close>
  requests over the same pair of slots.
\<close>

theorem save_stores_reversed_pending_request:
  assumes "findById (events d) (mySlotId r) = Some a"
    and "findById (events d) (theirSlotId r) = Some b"
    and "userId a = requestedBy r" and "userId b = requestedTo r"
    and "status a = SWAPPABLE" and "status b = SWAPPABLE"
    and "now < startTime a" and "now < startTime b"
    and "length (message r) \<le> 300" and "rstatus r = PENDING"
    and "findById (requests d) newId = None"
    and "(k, r') \<in> set (requests d)" and "rstatus r' = PENDING"
    and "mySlotId r' = theirSlotId r" and "theirSlotId r' = mySlotId r"
    and "\<forall>(j, x) \<in> set (requests d).
           \<not> (rstatus x = PENDING \<and> mySlotId x = mySlotId r \<and> theirSlotId x = theirSlotId r)"
    and "\<not> request_write_fails flt"
  shows "case save_new_request od flt now newId r d of
           Inl e \<Rightarrow> False
         | Inr d' \<Rightarrow>
             requests d' = requests d @ [(newId, r)] \<and>
             (k, r') \<in> set (requests d') \<and> (newId, r) \<in> set (requests d') \<and>
             \<not> pending_pairs_unique (requests d')"
proof -
  have hook: "pre_save now True r (events d) = None"
    using assms(1-8) by (simp add: pre_save_def)
  have "\<not> violates_pending_index (requests d) r"
    using assms(16) by (auto simp: violates_pending_index_def list_ex_iff)
  then have ins: "insert_request newId r (requests d) = Inr (requests d @ [(newId, r)])"
    using assms(11) by (simp add: insert_request_def)
  have saved: "save_new_request od flt now newId r d =
      Inr (d\<lparr>events := post_save flt (post_save_sees_isNew od) r (events d),
             requests := requests d @ [(newId, r)]\<rparr>)"
    using assms(9,17) hook ins by (simp add: save_new_request_def)
  have "existingRequest (requests d) (mySlotId r) (theirSlotId r)"
    using assms(12-15) by (auto simp: existingRequest_iff pending_between_def)
  then have "\<not> pending_pairs_unique (requests d @ [(newId, r)])"
    using assms(10) by (simp add: pending_pairs_unique_append)
  then show ?thesis
    using assms(12) by (simp add: saved)
qed

text \<open>
  User 1 asked for slot 20 against slot 10 (request 100) and the slots are still
  \<open>SWAPPABLE\<close>; the request of user 2 for slot 10 against slot 20 was checked before request
  100 was stored. Its save succeeds, and requests 100 and 101 are both \<open>PENDING\<close> over
  the slots 10 and 20.
\<close>

theorem save_stores_reversed_pending_request_witness:
  "findById (requests (ex_db_pending\<lparr>events := events ex_db_swappable\<rparr>)) 100 = Some ex_request \<and>
   rstatus ex_request = PENDING \<and> mySlotId ex_request = 10 \<and> theirSlotId ex_request = 20 \<and>
   (case save_new_request mongoose no_faults ex_now 101 (new_request ex_now 20 10 2 1 ''hi'')
           (ex_db_pending\<lparr>events := events ex_db_swappable\<rparr>) of
      Inl e \<Rightarrow> False
    | Inr d' \<Rightarrow>
        map_option rstatus (findById (requests d') 100) = Some PENDING \<and>
        map_option rstatus (findById (requests d') 101) = Some PENDING \<and>
        map_option mySlotId (findById (requests d') 101) = Some 20 \<and>
        map_option theirSlotId (findById (requests d') 101) = Some 10 \<and>
        \<not> pending_pairs_unique (requests d'))"
proof -
  let ?d = "ex_db_pending\<lparr>events := events ex_db_swappable\<rparr>"
  let ?r = "new_request ex_now 20 10 2 1 ''hi''"
  let ?a = "ex_slot 2 9000000 SWAPPABLE" and ?b = "ex_slot 1 5000000 SWAPPABLE"
  have h1: "findById (events ?d) (mySlotId ?r) = Some ?a"
    and h2: "findById (events ?d) (theirSlotId ?r) = Some ?b"
    by (simp_all add: ex_defs findById_def)
  have h3: "userId ?a = requestedBy ?r" and h4: "userId ?b = requestedTo ?r"
    and h5: "status ?a = SWAPPABLE" and h6: "status ?b = SWAPPABLE"
    and h7: "ex_now < startTime ?a" and h8: "ex_now < startTime ?b"
    and h9: "length (message ?r) \<le> 300" and h10: "rstatus ?r = PENDING"
    by (simp_all add: ex_defs trim_def is_space_def)
  have h11: "findById (requests ?d) 101 = None"
    and stored: "findById (requests ?d) 100 = Some ex_request"
    and h12: "(100, ex_request) \<in> set (requests ?d)"
    by (simp_all add: ex_defs findById_def)
  have h13: "rstatus ex_request = PENDING" and h14: "mySlotId ex_request = theirSlotId ?r"
    and h15: "theirSlotId ex_request = mySlotId ?r"
    and ids: "mySlotId ex_request = 10" "theirSlotId ex_request = 20"
    by (simp_all add: ex_defs)
  have h16: "\<forall>(j, x) \<in> set (requests ?d).
      \<not> (rstatus x = PENDING \<and> mySlotId x = mySlotId ?r \<and> theirSlotId x = theirSlotId ?r)"
    by (simp add: ex_defs)
  have h17: "\<not> request_write_fails no_faults"
    by (simp add: no_faults_def)
  have reqs: "requests ?d = [(100, ex_request)]"
    by (simp add: ex_defs)
  have new: "rstatus ?r = PENDING" "mySlotId ?r = 20" "theirSlotId ?r = 10"
    by (simp_all add: new_request_def)
  note saved = save_stores_reversed_pending_request [OF h1 h2 h3 h4 h5 h6 h7 h8 h9 h10 h11 h12
      h13 h14 h15 h16 h17, of mongoose]
  show ?thesis
  proof (cases "save_new_request mongoose no_faults ex_now 101 ?r ?d")
    case (Inl e)
    then show ?thesis
      using saved by simp
  next
    case (Inr d')
    note after = saved [unfolded Inr sum.case]
    have two: "\<not> pending_pairs_unique (requests d')"
      using after by (elim conjE)
    have rs: "requests d' = [(100, ex_request), (101, ?r)]"
      using after [THEN conjunct1] by (simp add: reqs)
    have look: "findById (requests d') 100 = Some ex_request"
      "findById (requests d') 101 = Some ?r"
      by (simp_all add: rs findById_def)
    show ?thesis
      unfolding Inr using stored h13 ids two look new by simp
  qed
qed

end
